theory Spec2Isabelle
  imports Complex_Main "HOL-Library.Signed_Division"
begin

section \<open>The WebGL shader compiler of deeplearnjs (src/math/webgl/shader_compiler.ts)\<close>

text \<open>
  The compiler turns shape descriptors into GLSL text. Two things are embedded here:
  the TypeScript functions that build the text (under their own names), and the integer
  and vector arithmetic of the GLSL functions they emit, with the numbers that the
  templates interpolate as parameters.

  GLSL \<open>int\<close> is modelled by \<open>int\<close> (GLSL ES leaves overflow and division by zero
  undefined, so statements about the emitted arithmetic are made for non-negative
  operands and positive divisors), and GLSL \<open>float\<close> by \<open>real\<close>, that is with exact
  arithmetic.
\<close>

subsection \<open>Collaborators outside shader_compiler.ts\<close>

text \<open>Modelled from the spec: \<open>util.arraysEqual\<close> is not among the sources; the spec
  speaks of shapes that are "identical".\<close>

definition arraysEqual :: "nat list \<Rightarrow> nat list \<Rightarrow> bool" where
  "arraysEqual n1 n2 = (n1 = n2)"

text \<open>Modelled from the spec: \<open>util.sizeFromShape\<close> is not among the sources; the spec
  calls its result the "total element count", the product of the entries (1 for rank 0).\<close>

definition sizeFromShape :: "nat list \<Rightarrow> nat" where
  "sizeFromShape shape = foldr (*) shape 1"

subsection \<open>GLSL arithmetic\<close>

type_synonym vec2 = "real \<times> real"

type_synonym tex_shape = "nat \<times> nat"

text \<open>Integer division \<open>a / b\<close> of GLSL, truncating.\<close>

definition idiv :: "int \<Rightarrow> int \<Rightarrow> int" where
  "idiv a b = a sdiv b"

text \<open>The conversions \<open>int(x)\<close> and \<open>ivec2(v)\<close> drop the fractional part.\<close>

definition float_to_int :: "real \<Rightarrow> int" where
  "float_to_int x = (if 0 \<le> x then \<lfloor>x\<rfloor> else \<lceil>x\<rceil>)"

definition halfCR :: vec2 where
  "halfCR = (1 / 2, 1 / 2)"

text \<open>\<open>(vec2(texC, texR) + halfCR) / vec2(texNumC, texNumR)\<close>: the centre of a texel.\<close>

definition texelUV :: "int \<Rightarrow> int \<Rightarrow> int \<Rightarrow> int \<Rightarrow> vec2" where
  "texelUV texC texR texNumC texNumR =
     ((real_of_int texC + fst halfCR) / real_of_int texNumC,
      (real_of_int texR + snd halfCR) / real_of_int texNumR)"

text \<open>\<open>ivec2 resTexRC = ivec2(resultUV.yx * vec2(texShape[0], texShape[1]))\<close>.\<close>

definition resTexRC :: "tex_shape \<Rightarrow> vec2 \<Rightarrow> int \<times> int" where
  "resTexRC ts resultUV =
     (float_to_int (snd resultUV * real (fst ts)), float_to_int (fst resultUV * real (snd ts)))"

subsection \<open>The UVfrom helpers of the shader prefix\<close>

text \<open>\<open>int texR = index / texNumC; int texC = index - texR * texNumC;\<close>, the
  texel address \<open>(texR, texC)\<close> of a flat index.\<close>

definition texRC :: "int \<Rightarrow> int \<Rightarrow> int \<times> int" where
  "texRC texNumC index = (let texR = idiv index texNumC; texC = index - texR * texNumC in (texR, texC))"

definition UVfrom1D :: "int \<Rightarrow> int \<Rightarrow> int \<Rightarrow> vec2" where
  "UVfrom1D texNumR texNumC index =
     (let (texR, texC) = texRC texNumC index in texelUV texC texR texNumC texNumR)"

definition index2D :: "int \<Rightarrow> int \<Rightarrow> int \<Rightarrow> int" where
  "index2D numC row col = row * numC + col"

definition UVfrom2D :: "int \<Rightarrow> int \<Rightarrow> int \<Rightarrow> int \<Rightarrow> int \<Rightarrow> vec2" where
  "UVfrom2D texNumR texNumC numC row col =
     (let index = index2D numC row col; (texR, texC) = texRC texNumC index
      in texelUV texC texR texNumC texNumR)"

definition index3D :: "int \<Rightarrow> int \<Rightarrow> int \<Rightarrow> int \<Rightarrow> int \<Rightarrow> int" where
  "index3D stride0 stride1 row col depth = row * stride0 + col * stride1 + depth"

definition UVfrom3D :: "int \<Rightarrow> int \<Rightarrow> int \<Rightarrow> int \<Rightarrow> int \<Rightarrow> int \<Rightarrow> int \<Rightarrow> vec2" where
  "UVfrom3D texNumR texNumC stride0 stride1 row col depth =
     (let index = index3D stride0 stride1 row col depth; (texR, texC) = texRC texNumC index
      in texelUV texC texR texNumC texNumR)"

definition index4D :: "int \<Rightarrow> int \<Rightarrow> int \<Rightarrow> int \<Rightarrow> int \<Rightarrow> int \<Rightarrow> int \<Rightarrow> int" where
  "index4D stride0 stride1 stride2 row col depth depth2 =
     row * stride0 + col * stride1 + depth * stride2 + depth2"

definition UVfrom4D ::
  "int \<Rightarrow> int \<Rightarrow> int \<Rightarrow> int \<Rightarrow> int \<Rightarrow> int \<Rightarrow> int \<Rightarrow> int \<Rightarrow> int \<Rightarrow> vec2" where
  "UVfrom4D texNumR texNumC stride0 stride1 stride2 row col depth depth2 =
     (let index = index4D stride0 stride1 stride2 row col depth depth2;
          (texR, texC) = texRC texNumC index
      in texelUV texC texR texNumC texNumR)"

subsection \<open>The emitted random-access samplers of rank 3 and 4\<close>

text \<open>The texel address that the body emitted by \<open>getSampler3D\<close> computes: \<open>texR\<close>
  and \<open>texC\<close> of the fast path, those of \<open>UVfrom3D\<close> otherwise.\<close>

definition getSampler3D_texel :: "nat \<times> nat \<times> nat \<Rightarrow> tex_shape \<Rightarrow> int \<Rightarrow> int \<Rightarrow> int \<Rightarrow> int \<times> int" where
  "getSampler3D_texel shape ts row col depth =
     (case shape of (s0, s1, s2) \<Rightarrow>
        let tC = snd ts; stride0 = s1 * s2; stride1 = s2 in
        if tC = stride0 then
          (let texR = row; texC = col * int stride1 + depth in (texR, texC))
        else texRC (int tC) (index3D (int stride0) (int stride1) row col depth))"

definition getSampler3D_uv :: "nat \<times> nat \<times> nat \<Rightarrow> tex_shape \<Rightarrow> int \<Rightarrow> int \<Rightarrow> int \<Rightarrow> vec2" where
  "getSampler3D_uv shape ts row col depth =
     (case shape of (s0, s1, s2) \<Rightarrow>
        let tR = fst ts; tC = snd ts; stride0 = s1 * s2; stride1 = s2 in
        if tC = stride0 then
          (let texR = row; texC = col * int stride1 + depth
           in texelUV texC texR (int tC) (int tR))
        else UVfrom3D (int tR) (int tC) (int stride0) (int stride1) row col depth)"

definition getSampler4D_texel ::
  "nat \<times> nat \<times> nat \<times> nat \<Rightarrow> tex_shape \<Rightarrow> int \<Rightarrow> int \<Rightarrow> int \<Rightarrow> int \<Rightarrow> int \<times> int" where
  "getSampler4D_texel shape ts row col depth depth2 =
     (case shape of (s0, s1, s2, s3) \<Rightarrow>
        let tC = snd ts; stride2 = s3; stride1 = s2 * stride2; stride0 = s1 * stride1 in
        if tC = stride0 then
          (let texR = row; texC = col * int stride1 + depth * int stride2 + depth2
           in (texR, texC))
        else texRC (int tC)
               (index4D (int stride0) (int stride1) (int stride2) row col depth depth2))"

definition getSampler4D_uv ::
  "nat \<times> nat \<times> nat \<times> nat \<Rightarrow> tex_shape \<Rightarrow> int \<Rightarrow> int \<Rightarrow> int \<Rightarrow> int \<Rightarrow> vec2" where
  "getSampler4D_uv shape ts row col depth depth2 =
     (case shape of (s0, s1, s2, s3) \<Rightarrow>
        let tR = fst ts; tC = snd ts;
            stride2 = s3; stride1 = s2 * stride2; stride0 = s1 * stride1 in
        if tC = stride0 then
          (let texR = row; texC = col * int stride1 + depth * int stride2 + depth2
           in texelUV texC texR (int tC) (int tR))
        else UVfrom4D (int tR) (int tC) (int stride0) (int stride1) (int stride2)
               row col depth depth2)"

subsection \<open>The emitted flat-index sampler and broadcast accessor\<close>

text \<open>The normalized coordinate that the body emitted by \<open>getSamplerFlat\<close> samples.\<close>

definition getSamplerFlat_uv :: "tex_shape \<Rightarrow> int \<Rightarrow> vec2" where
  "getSamplerFlat_uv ts index =
     (let tNumR = fst ts; tNumC = snd ts in
      if tNumC = 1 \<and> tNumR = 1 then halfCR
      else if tNumC = 1 then (1 / 2, (real_of_int index + 1 / 2) / real tNumR)
      else if tNumR = 1 then ((real_of_int index + 1 / 2) / real tNumC, 1 / 2)
      else (let texR = idiv index (int tNumC); texC = index - texR * int tNumC
            in texelUV texC texR (int tNumC) (int tNumR)))"

text \<open>The flat index that the body emitted by \<open>getSamplerAtOutputCoords\<close> reaches
  before it is turned into a texel address, when the texture shapes differ:
  \<open>resTexRC.x * outTexShape[1] + resTexRC.y\<close>, then the broadcast snippet if requested.\<close>

definition getSamplerAtOutputCoords_index :: "tex_shape \<Rightarrow> tex_shape \<Rightarrow> bool \<Rightarrow> vec2 \<Rightarrow> int" where
  "getSamplerAtOutputCoords_index inTexShape outTexShape broadcast resultUV =
     (let inSize = sizeFromShape [fst inTexShape, snd inTexShape];
          rc = resTexRC outTexShape resultUV;
          index = fst rc * int (snd outTexShape) + snd rc
      in if broadcast then (let mainPart = idiv index (int inSize) in index - mainPart * int inSize)
         else index)"

text \<open>The normalized coordinate that the body emitted by \<open>getSamplerAtOutputCoords\<close>
  samples, for a fragment at \<open>resultUV\<close>.\<close>

definition getSamplerAtOutputCoords_uv :: "tex_shape \<Rightarrow> tex_shape \<Rightarrow> bool \<Rightarrow> vec2 \<Rightarrow> vec2" where
  "getSamplerAtOutputCoords_uv inTexShape outTexShape broadcast resultUV =
     (if arraysEqual [fst inTexShape, snd inTexShape] [fst outTexShape, snd outTexShape]
      then resultUV
      else (let index = getSamplerAtOutputCoords_index inTexShape outTexShape broadcast resultUV;
                texR = idiv index (int (snd inTexShape));
                texC = index - texR * int (snd inTexShape)
            in texelUV texC texR (int (snd inTexShape)) (int (fst inTexShape))))"

subsection \<open>The emitted output-coordinate decoders\<close>

text \<open>\<open>int index = resTexRC.x * texShape[1] + resTexRC.y\<close>.\<close>

definition outIndex :: "tex_shape \<Rightarrow> vec2 \<Rightarrow> int" where
  "outIndex ts resultUV = (let rc = resTexRC ts resultUV in fst rc * int (snd ts) + snd rc)"

text \<open>The value of the \<open>getOutputCoords()\<close> that \<open>getOutput1DCoords\<close> emits.\<close>

definition getOutputCoords_1D :: "nat \<Rightarrow> tex_shape \<Rightarrow> vec2 \<Rightarrow> int" where
  "getOutputCoords_1D shape ts resultUV =
     (if fst ts = 1 then float_to_int (fst resultUV * real (snd ts))
      else if snd ts = 1 then float_to_int (snd resultUV * real (fst ts))
      else outIndex ts resultUV)"

text \<open>The value of the \<open>getOutputCoords()\<close> that \<open>getOutput2DCoords\<close> emits.\<close>

definition getOutputCoords_2D :: "nat \<times> nat \<Rightarrow> tex_shape \<Rightarrow> vec2 \<Rightarrow> int \<times> int" where
  "getOutputCoords_2D shape ts resultUV =
     (if arraysEqual [fst shape, snd shape] [fst ts, snd ts] then resTexRC ts resultUV
      else if snd shape = 1 then (outIndex ts resultUV, 0)
      else if fst shape = 1 then (0, outIndex ts resultUV)
      else (let index = outIndex ts resultUV;
                r = idiv index (int (snd shape));
                c = index - r * int (snd shape)
            in (r, c)))"

text \<open>The value of the \<open>getOutputCoords()\<close> that \<open>getOutput3DCoords\<close> emits.\<close>

definition getOutputCoords_3D :: "nat \<times> nat \<times> nat \<Rightarrow> tex_shape \<Rightarrow> vec2 \<Rightarrow> int \<times> int \<times> int" where
  "getOutputCoords_3D shape ts resultUV =
     (case shape of (s0, s1, s2) \<Rightarrow>
        let stride0 = s1 * s2; stride1 = s2;
            index = outIndex ts resultUV;
            r = idiv index (int stride0);
            index = index - r * int stride0;
            c = idiv index (int stride1);
            d = index - c * int stride1
        in (r, c, d))"

text \<open>The value of the \<open>getOutputCoords()\<close> that \<open>getOutput4DCoords\<close> emits.\<close>

definition getOutputCoords_4D ::
  "nat \<times> nat \<times> nat \<times> nat \<Rightarrow> tex_shape \<Rightarrow> vec2 \<Rightarrow> int \<times> int \<times> int \<times> int" where
  "getOutputCoords_4D shape ts resultUV =
     (case shape of (s0, s1, s2, s3) \<Rightarrow>
        let stride2 = s3; stride1 = s2 * stride2; stride0 = s1 * stride1;
            index = outIndex ts resultUV;
            r = idiv index (int stride0);
            index = index - r * int stride0;
            c = idiv index (int stride1);
            index = index - c * int stride1;
            d = idiv index (int stride2);
            d2 = index - d * int stride2
        in (r, c, d, d2))"

text \<open>The decoder by rank, as \<open>getOutputSamplingSnippet\<close> selects it: the coordinates
  most significant first, and nothing where no decoder is emitted (rank 0 and ranks
  above 4).\<close>

definition getOutputCoords :: "nat list \<Rightarrow> tex_shape \<Rightarrow> vec2 \<Rightarrow> int list option" where
  "getOutputCoords shape ts resultUV =
     (case shape of
        [s0] \<Rightarrow> Some [getOutputCoords_1D s0 ts resultUV]
      | [s0, s1] \<Rightarrow>
          (case getOutputCoords_2D (s0, s1) ts resultUV of (r, c) \<Rightarrow> Some [r, c])
      | [s0, s1, s2] \<Rightarrow>
          (case getOutputCoords_3D (s0, s1, s2) ts resultUV of (r, c, d) \<Rightarrow> Some [r, c, d])
      | [s0, s1, s2, s3] \<Rightarrow>
          (case getOutputCoords_4D (s0, s1, s2, s3) ts resultUV of
             (r, c, d, d2) \<Rightarrow> Some [r, c, d, d2])
      | _ \<Rightarrow> None)"

text \<open>The flat index that the \<open>UVfrom\<close> helper of the same rank forms from the
  coordinates, with the strides that the samplers pass to it.\<close>

definition flatIndex :: "nat list \<Rightarrow> int list \<Rightarrow> int option" where
  "flatIndex shape coords =
     (case (shape, coords) of
        ([s0], [index]) \<Rightarrow> Some index
      | ([s0, s1], [row, col]) \<Rightarrow> Some (index2D (int s1) row col)
      | ([s0, s1, s2], [row, col, depth]) \<Rightarrow>
          Some (index3D (int (s1 * s2)) (int s2) row col depth)
      | ([s0, s1, s2, s3], [row, col, depth, depth2]) \<Rightarrow>
          Some (index4D (int (s1 * (s2 * s3))) (int (s2 * s3)) (int s3) row col depth depth2)
      | _ \<Rightarrow> None)"

subsection \<open>The quantized codec\<close>

text \<open>
  A GLSL float that may be not-a-number. The snippets of the quantized codec interpolate
  \<open>tex_util.FLOAT_MIN\<close>, \<open>tex_util.FLOAT_MAX\<close> and \<open>tex_util.BYTE_NAN_VALUE\<close>;
  \<open>tex_util\<close> is not among the sources, so the three constants are the parameters
  \<open>minValue\<close>, \<open>maxValue\<close> and \<open>nanValue\<close> below.
\<close>

datatype glfloat = NaN | Val real

type_synonym vec4 = "real \<times> real \<times> real \<times> real"

text \<open>\<open>vec4(x)\<close> with one argument repeats it in the four channels.\<close>

definition vec4_of :: "real \<Rightarrow> vec4" where
  "vec4_of x = (x, x, x, x)"

definition dot2 :: "vec2 \<Rightarrow> vec2 \<Rightarrow> real" where
  "dot2 u v = fst u * fst v + snd u * snd v"

definition dot4 :: "vec4 \<Rightarrow> vec4 \<Rightarrow> real" where
  "dot4 u v =
     (case u of (u0, u1, u2, u3) \<Rightarrow> case v of (v0, v1, v2, v3) \<Rightarrow>
        u0 * v0 + u1 * v1 + u2 * v2 + u3 * v3)"

definition isNaN :: "glfloat \<Rightarrow> bool" where
  "isNaN val = (if val \<noteq> NaN then False else True)"

definition floatDeltas :: vec4 where
  "floatDeltas = (1, 1 / 255, 1 / (255 * 255), 1 / (255 * 255 * 255))"

text \<open>\<open>const float range = (maxValue - minValue) / 255.0\<close>.\<close>

definition range_c :: "real \<Rightarrow> real \<Rightarrow> real" where
  "range_c minValue maxValue = (maxValue - minValue) / 255"

definition dotRange :: "real \<Rightarrow> real \<Rightarrow> vec2" where
  "dotRange minValue maxValue = (1, range_c minValue maxValue)"

text \<open>\<open>const vec2 recipRange = vec2(1.0/range)\<close>.\<close>

definition recipRange :: "real \<Rightarrow> real \<Rightarrow> vec2" where
  "recipRange minValue maxValue =
     (1 / range_c minValue maxValue, 1 / range_c minValue maxValue)"

text \<open>\<open>float sample(sampler2D texture, vec2 uv)\<close> of the quantized codec, as a function
  of the texel \<open>sampleValue = texture2D(texture, uv)\<close>.\<close>

definition sample :: "real \<Rightarrow> real \<Rightarrow> real \<Rightarrow> vec4 \<Rightarrow> glfloat" where
  "sample minValue maxValue nanValue sampleValue =
     (if sampleValue = vec4_of nanValue then NaN
      else (case sampleValue of (s0, s1, s2, s3) \<Rightarrow>
        let encValue = (real_of_int \<lfloor>s0 * 255 + 1 / 2\<rfloor>, real_of_int \<lfloor>s1 * 255 + 1 / 2\<rfloor>,
                        real_of_int \<lfloor>s2 * 255 + 1 / 2\<rfloor>, real_of_int \<lfloor>s3 * 255 + 1 / 2\<rfloor>);
            decodedValue = dot4 encValue floatDeltas
        in Val (dot2 (minValue, decodedValue) (dotRange minValue maxValue))))"

text \<open>\<open>void setOutput(float decodedValue)\<close> of the quantized codec: the value written
  to \<open>gl_FragColor\<close>.\<close>

definition setOutput :: "real \<Rightarrow> real \<Rightarrow> real \<Rightarrow> glfloat \<Rightarrow> vec4" where
  "setOutput minValue maxValue nanValue decodedValue =
     (if isNaN decodedValue then vec4_of nanValue
      else (case decodedValue of Val v \<Rightarrow>
        let a = dot2 (v, - minValue) (recipRange minValue maxValue);
            b = frac a * 255;
            c = frac b * 255;
            d = frac c * 255
        in (real_of_int \<lfloor>a\<rfloor> / 255, real_of_int \<lfloor>b\<rfloor> / 255,
            real_of_int \<lfloor>c\<rfloor> / 255, real_of_int \<lfloor>d\<rfloor> / 255)))"

text \<open>A channel value that an unsigned-byte texture holds exactly: \<open>k / 255\<close> for a
  byte \<open>k\<close>.\<close>

definition byte_channel :: "real \<Rightarrow> bool" where
  "byte_channel x = (0 \<le> x \<and> x \<le> 1 \<and> real_of_int \<lfloor>x * 255\<rfloor> = x * 255)"

text \<open>The values whose four base-255 digits all equal the byte \<open>k\<close> of the sentinel
  channel value \<open>k / 255\<close>: there are none unless \<open>k\<close> is an integer from 0 to 254,
  and then they are the values from
  \<open>minValue + range * (k + k / 255 + k / 255\<^sup>2 + k / 255\<^sup>3)\<close> up to, and not
  including, that number plus \<open>(maxValue - minValue) / 255\<^sup>4\<close>.\<close>

definition sentinel_window :: "real \<Rightarrow> real \<Rightarrow> real \<Rightarrow> real \<Rightarrow> bool" where
  "sentinel_window minValue maxValue nanValue v =
     (let k = nanValue * 255;
          lo = minValue + range_c minValue maxValue * (k + k / 255 + k / 255 ^ 2 + k / 255 ^ 3)
      in real_of_int \<lfloor>k\<rfloor> = k \<and> 0 \<le> k \<and> k \<le> 254
         \<and> lo \<le> v \<and> v < lo + (maxValue - minValue) / 255 ^ 4)"

subsection \<open>Strings and numbers of the host language\<close>

text \<open>\<open>Array.prototype.join('\n')\<close>.\<close>

fun join_nl :: "string list \<Rightarrow> string" where
  "join_nl [] = []"
| "join_nl [x] = x"
| "join_nl (x # y # ys) = x @ ''\<newline>'' @ join_nl (y # ys)"

text \<open>A dimension interpolated into a template is printed in decimal.\<close>

definition digit :: "nat \<Rightarrow> char" where
  "digit d = ''0123456789'' ! d"

fun dec :: "nat \<Rightarrow> string" where
  "dec n = (if n < 10 then [digit n] else dec (n div 10) @ [digit (n mod 10)])"

declare dec.simps [simp del]

definition dec_int :: "int \<Rightarrow> string" where
  "dec_int i = (if i < 0 then ''-'' @ dec (nat (- i)) else dec (nat i))"

text \<open>\<open>charAt\<close>, \<open>toUpperCase\<close> and \<open>slice\<close> on names of ASCII characters, as the
  identifiers of GLSL are. \<open>toUpperCase_char\<close> is \<open>toUpperCase\<close> on one ASCII
  character: a letter from a to z becomes its capital, any other ASCII character stays.
  Outside ASCII the host language consults the Unicode tables, which are not modelled;
  the statements about generated names are therefore made for ASCII names only.\<close>

definition charAt :: "string \<Rightarrow> nat \<Rightarrow> string" where
  "charAt s i = (if i < length s then [s ! i] else [])"

definition toUpperCase_char :: "char \<Rightarrow> char" where
  "toUpperCase_char c =
     (let n = (of_char c :: nat) in if 97 \<le> n \<and> n \<le> 122 then char_of (n - 32) else c)"

definition toUpperCase :: "string \<Rightarrow> string" where
  "toUpperCase s = map toUpperCase_char s"

definition slice :: "string \<Rightarrow> nat \<Rightarrow> string" where
  "slice s i = drop i s"

subsection \<open>Descriptors\<close>

text \<open>\<open>TextureChannelPackingFormat\<close> is imported from \<open>../ndarray\<close>, which is not
  among the sources; its members are those that shader_compiler.ts names.\<close>

datatype TextureChannelPackingFormat = R | RGBA_1_BY_4

record ShapeInfo =
  logicalShape :: "nat list"
  texShape :: "nat \<times> nat"
  textureChannelPackingFormat :: TextureChannelPackingFormat

record InputInfo =
  name :: string
  shapeInfo :: ShapeInfo

text \<open>The constants of \<open>tex_util\<close> that the codec snippets interpolate. The templates
  append \<open>.0\<close> to the first two, which are therefore whole numbers.\<close>

record tex_util =
  FLOAT_MIN :: int
  FLOAT_MAX :: int
  BYTE_NAN_VALUE :: int

text \<open>\<open>throw new Error(message)\<close>.\<close>

datatype error = Error string

subsection \<open>The fixed snippets\<close>

definition SAMPLE_1D_SNIPPET :: string where
  "SAMPLE_1D_SNIPPET =
     (''\<newline>'' @
      ''vec2 UVfrom1D(int texNumR, int texNumC, int index) {\<newline>'' @
      ''  int texR = index / texNumC;\<newline>'' @
      ''  int texC = index - texR * texNumC;\<newline>'' @
      ''  return (vec2(texC, texR) + halfCR) / vec2(texNumC, texNumR);\<newline>'' @
      ''}\<newline>'')"

definition SAMPLE_2D_SNIPPET :: string where
  "SAMPLE_2D_SNIPPET =
     (''\<newline>'' @
      ''vec2 UVfrom2D(int texNumR, int texNumC, int numC, int row, int col) {\<newline>'' @
      ''  int index = row * numC + col;\<newline>'' @
      ''  int texR = index / texNumC;\<newline>'' @
      ''  int texC = index - texR * texNumC;\<newline>'' @
      ''  return (vec2(texC, texR) + halfCR) / vec2(texNumC, texNumR);\<newline>'' @
      ''}\<newline>'')"

definition SAMPLE_3D_SNIPPET :: string where
  "SAMPLE_3D_SNIPPET =
     (''\<newline>'' @
      ''vec2 UVfrom3D(int texNumR, int texNumC, int stride0,\<newline>'' @
      ''    int stride1, int row, int col, int depth) {\<newline>'' @
      ''  // Explicitly use integer operations as dot() only works on floats.\<newline>'' @
      ''  int index = row * stride0 + col * stride1 + depth;\<newline>'' @
      ''  int texR = index / texNumC;\<newline>'' @
      ''  int texC = index - texR * texNumC;\<newline>'' @
      ''  return (vec2(texC, texR) + halfCR) / vec2(texNumC, texNumR);\<newline>'' @
      ''}\<newline>'')"

definition SAMPLE_4D_SNIPPET :: string where
  "SAMPLE_4D_SNIPPET =
     (''\<newline>'' @
      ''vec2 UVfrom4D(int texNumR, int texNumC, int stride0,\<newline>'' @
      ''    int stride1, int stride2, int row, int col, int depth,\<newline>'' @
      ''    int depth2) {\<newline>'' @
      ''  // Explicitly use integer operations as dot() only works on floats.\<newline>'' @
      ''  int index = row * stride0 + col * stride1 + depth * stride2 + depth2;\<newline>'' @
      ''  int texR = index / texNumC;\<newline>'' @
      ''  int texC = index - texR * texNumC;\<newline>'' @
      ''  return (vec2(texC, texR) + halfCR) / vec2(texNumC, texNumR);\<newline>'' @
      ''}\<newline>'')"

definition UNSIGNED_BYTE_TEXTURE_SAMPLE_SNIPPET :: "tex_util \<Rightarrow> string" where
  "UNSIGNED_BYTE_TEXTURE_SAMPLE_SNIPPET tu =
     (''\<newline>'' @
      ''  uniform float NaN;\<newline>'' @
      ''\<newline>'' @
      ''  const vec4 floatDeltas = vec4(\<newline>'' @
      ''      1.0,\<newline>'' @
      ''      1.0 / 255.0,\<newline>'' @
      ''      1.0 / (255.0 * 255.0),\<newline>'' @
      ''      1.0 / (255.0 * 255.0 * 255.0)\<newline>'' @
      ''  );\<newline>'' @
      ''  const float minValue = '' @ dec_int (FLOAT_MIN tu) @ ''.0;\<newline>'' @
      ''  const float maxValue = '' @ dec_int (FLOAT_MAX tu) @ ''.0;\<newline>'' @
      ''  const float range = (maxValue - minValue) / 255.0;\<newline>'' @
      ''  const vec2 dotRange = vec2(1.0, range);\<newline>'' @
      ''\<newline>'' @
      ''  float sample(sampler2D texture, vec2 uv) {\<newline>'' @
      ''    vec4 sampleValue = texture2D(texture, uv);\<newline>'' @
      ''    if (all(equal(sampleValue, vec4('' @ dec_int (BYTE_NAN_VALUE tu) @ '')))) {\<newline>'' @
      ''      return NaN;\<newline>'' @
      ''    }\<newline>'' @
      ''\<newline>'' @
      ''    vec4 encValue = floor(sampleValue * 255.0 + 0.5);\<newline>'' @
      ''    float decodedValue = dot(encValue, floatDeltas);\<newline>'' @
      ''    return dot(vec2(minValue, decodedValue), dotRange);\<newline>'' @
      ''  }\<newline>'')"

definition UNSIGNED_BYTE_TEXTURE_SETOUTPUT_SNIPPET :: "tex_util \<Rightarrow> string" where
  "UNSIGNED_BYTE_TEXTURE_SETOUTPUT_SNIPPET tu =
     (''\<newline>'' @
      ''  const vec4 floatPowers = vec4(\<newline>'' @
      ''    1.0,\<newline>'' @
      ''    255.0,\<newline>'' @
      ''    255.0 * 255.0,\<newline>'' @
      ''    255.0 * 255.0 * 255.0\<newline>'' @
      ''  );\<newline>'' @
      ''  const vec2 recipRange = vec2(1.0/range);\<newline>'' @
      ''  const vec2 recipRange255 = vec2(1.0/(maxValue - minValue));\<newline>'' @
      ''\<newline>'' @
      ''  void setOutput(float decodedValue) {\<newline>'' @
      ''    if (isNaN(decodedValue)) {\<newline>'' @
      ''      gl_FragColor = vec4('' @ dec_int (BYTE_NAN_VALUE tu) @ '');\<newline>'' @
      ''      return;\<newline>'' @
      ''    }\<newline>'' @
      ''\<newline>'' @
      ''    float a = dot(vec2(decodedValue, -minValue), recipRange);\<newline>'' @
      ''    float b = fract(a) * 255.0;\<newline>'' @
      ''    float c = fract(b) * 255.0;\<newline>'' @
      ''    float d = fract(c) * 255.0;\<newline>'' @
      ''    gl_FragColor = floor(vec4(a, b, c, d)) / 255.0;\<newline>'' @
      ''\<newline>'' @
      ''    // TODO(dsmilkov): Version above gets better accuracy but probably slower\<newline>'' @
      ''    // than the version below. Benchmark to determine if the accuracy is worth\<newline>'' @
      ''    // the cost.\<newline>'' @
      ''\<newline>'' @
      ''    // float normValue = dot(vec2(decodedValue, -minValue), recipRange255);\<newline>'' @
      ''    // vec4 f = normValue * floatPowers;\<newline>'' @
      ''    // gl_FragColor = floor(fract(f) * 255.0) / 255.0;\<newline>'' @
      ''  }\<newline>'')"

definition FLOAT_TEXTURE_SAMPLE_SNIPPET :: string where
  "FLOAT_TEXTURE_SAMPLE_SNIPPET =
     (''\<newline>'' @
      ''  float sample(sampler2D texture, vec2 uv) {\<newline>'' @
      ''    return texture2D(texture, uv).r;\<newline>'' @
      ''  }\<newline>'')"

definition FLOAT_TEXTURE_SETOUTPUT_SNIPPET :: string where
  "FLOAT_TEXTURE_SETOUTPUT_SNIPPET =
     (''\<newline>'' @
      ''  void setOutput(float val) {\<newline>'' @
      ''    gl_FragColor = vec4(val, 0, 0, 0);\<newline>'' @
      ''  }\<newline>'')"

definition SHADER_PREFIX :: string where
  "SHADER_PREFIX =
     (''\<newline>'' @
      ''  precision highp float;\<newline>'' @
      ''  precision highp int;\<newline>'' @
      ''  varying vec2 resultUV;\<newline>'' @
      ''  const vec2 halfCR = vec2(0.5, 0.5);\<newline>'' @
      ''\<newline>'' @
      ''  bool isNaN(float val) {\<newline>'' @
      ''    return val == val ? false : true;\<newline>'' @
      ''  }\<newline>'' @
      ''\<newline>'' @
      ''  bool hasNaN(vec4 values) {\<newline>'' @
      ''    return any(notEqual(values, values));\<newline>'' @
      ''  }\<newline>'' @
      ''\<newline>'' @
      ''  float getNaN(vec4 values) {\<newline>'' @
      ''    return dot(vec4(1), values);\<newline>'' @
      ''  }\<newline>'' @
      ''\<newline>'' @
      ''  int round(float value) {\<newline>'' @
      ''    return int(floor(value + 0.5));\<newline>'' @
      ''  }\<newline>'' @
      ''\<newline>'' @
      ''  const vec2 randomConst = vec2(\<newline>'' @
      ''    23.14069263277926, // e^pi (Gelfond'' @ [CHR 0x27] @ ''s constant)\<newline>'' @
      ''     2.665144142690225 // 2^sqrt(2) (Gelfond'' @ [CHR 0xE2, CHR 0x80, CHR 0x93] @ ''Schneider constant)\<newline>'' @
      ''  );\<newline>'' @
      ''\<newline>'' @
      ''  float random(float seed) {\<newline>'' @
      ''      return fract(cos(dot(resultUV * seed, randomConst)) * 12345.6789);\<newline>'' @
      ''  }\<newline>'' @
      ''\<newline>'' @
      ''  '' @ SAMPLE_1D_SNIPPET @ ''\<newline>'' @
      ''  '' @ SAMPLE_2D_SNIPPET @ ''\<newline>'' @
      ''  '' @ SAMPLE_3D_SNIPPET @ ''\<newline>'' @
      ''  '' @ SAMPLE_4D_SNIPPET @ ''\<newline>'')"

subsection \<open>The generators of the output-coordinate decoder\<close>

definition getOutput1DCoords :: "nat \<Rightarrow> nat \<times> nat \<Rightarrow> string" where
  "getOutput1DCoords shape ts =
     (if fst ts = 1 then
        (''\<newline>'' @
         ''      int getOutputCoords() {\<newline>'' @
         ''        return int(resultUV.x * '' @ dec (snd ts) @ ''.0);\<newline>'' @
         ''      }\<newline>'' @
         ''    '')
      else if snd ts = 1 then
        (''\<newline>'' @
         ''      int getOutputCoords() {\<newline>'' @
         ''        return int(resultUV.y * '' @ dec (fst ts) @ ''.0);\<newline>'' @
         ''      }\<newline>'' @
         ''    '')
      else
        (''\<newline>'' @
         ''    int getOutputCoords() {\<newline>'' @
         ''      ivec2 resTexRC = ivec2(resultUV.yx *\<newline>'' @
         ''                             vec2('' @ dec (fst ts) @ '', '' @ dec (snd ts) @ ''));\<newline>'' @
         ''      return resTexRC.x * '' @ dec (snd ts) @ '' + resTexRC.y;\<newline>'' @
         ''    }\<newline>'' @
         ''  ''))"

definition getOutput3DCoords :: "nat \<times> nat \<times> nat \<Rightarrow> nat \<times> nat \<Rightarrow> string" where
  "getOutput3DCoords shape ts =
     (case shape of (s0, s1, s2) \<Rightarrow>
        let stride0 = s1 * s2; stride1 = s2 in
        (''\<newline>'' @
         ''    ivec3 getOutputCoords() {\<newline>'' @
         ''      ivec2 resTexRC = ivec2(resultUV.yx *\<newline>'' @
         ''                             vec2('' @ dec (fst ts) @ '', '' @ dec (snd ts) @ ''));\<newline>'' @
         ''      int index = resTexRC.x * '' @ dec (snd ts) @ '' + resTexRC.y;\<newline>'' @
         ''      int r = index / '' @ dec stride0 @ '';\<newline>'' @
         ''      index -= r * '' @ dec stride0 @ '';\<newline>'' @
         ''      int c = index / '' @ dec stride1 @ '';\<newline>'' @
         ''      int d = index - c * '' @ dec stride1 @ '';\<newline>'' @
         ''      return ivec3(r, c, d);\<newline>'' @
         ''    }\<newline>'' @
         ''  ''))"

definition getOutput4DCoords :: "nat \<times> nat \<times> nat \<times> nat \<Rightarrow> nat \<times> nat \<Rightarrow> string" where
  "getOutput4DCoords shape ts =
     (case shape of (s0, s1, s2, s3) \<Rightarrow>
        let stride2 = s3; stride1 = s2 * stride2; stride0 = s1 * stride1 in
        (''\<newline>'' @
         ''    ivec4 getOutputCoords() {\<newline>'' @
         ''      ivec2 resTexRC = ivec2(resultUV.yx *\<newline>'' @
         ''        vec2('' @ dec (fst ts) @ '', '' @ dec (snd ts) @ ''));\<newline>'' @
         ''      int index = resTexRC.x * '' @ dec (snd ts) @ '' + resTexRC.y;\<newline>'' @
         ''\<newline>'' @
         ''      int r = index / '' @ dec stride0 @ '';\<newline>'' @
         ''      index -= r * '' @ dec stride0 @ '';\<newline>'' @
         ''\<newline>'' @
         ''      int c = index / '' @ dec stride1 @ '';\<newline>'' @
         ''      index -= c * '' @ dec stride1 @ '';\<newline>'' @
         ''\<newline>'' @
         ''      int d = index / '' @ dec stride2 @ '';\<newline>'' @
         ''      int d2 = index - d * '' @ dec stride2 @ '';\<newline>'' @
         ''\<newline>'' @
         ''      return ivec4(r, c, d, d2);\<newline>'' @
         ''    }\<newline>'' @
         ''  ''))"

definition getOutput2DCoords :: "nat \<times> nat \<Rightarrow> nat \<times> nat \<Rightarrow> string" where
  "getOutput2DCoords shape ts =
     (case shape of (s0, s1) \<Rightarrow>
        if arraysEqual [s0, s1] [fst ts, snd ts] then
          (''\<newline>'' @
           ''      ivec2 getOutputCoords() {\<newline>'' @
           ''        return ivec2(resultUV.yx * vec2('' @ dec (fst ts) @ '', '' @ dec (snd ts) @ ''));\<newline>'' @
           ''      }\<newline>'' @
           ''    '')
        else if s1 = 1 then
          (''\<newline>'' @
           ''      ivec2 getOutputCoords() {\<newline>'' @
           ''        ivec2 resTexRC = ivec2(resultUV.yx *\<newline>'' @
           ''                               vec2('' @ dec (fst ts) @ '', '' @ dec (snd ts) @ ''));\<newline>'' @
           ''        int index = resTexRC.x * '' @ dec (snd ts) @ '' + resTexRC.y;\<newline>'' @
           ''        return ivec2(index, 0);\<newline>'' @
           ''      }\<newline>'' @
           ''    '')
        else if s0 = 1 then
          (''\<newline>'' @
           ''      ivec2 getOutputCoords() {\<newline>'' @
           ''        ivec2 resTexRC = ivec2(resultUV.yx *\<newline>'' @
           ''                               vec2('' @ dec (fst ts) @ '', '' @ dec (snd ts) @ ''));\<newline>'' @
           ''        int index = resTexRC.x * '' @ dec (snd ts) @ '' + resTexRC.y;\<newline>'' @
           ''        return ivec2(0, index);\<newline>'' @
           ''      }\<newline>'' @
           ''    '')
        else
          (''\<newline>'' @
           ''    ivec2 getOutputCoords() {\<newline>'' @
           ''      ivec2 resTexRC = ivec2(resultUV.yx *\<newline>'' @
           ''                             vec2('' @ dec (fst ts) @ '', '' @ dec (snd ts) @ ''));\<newline>'' @
           ''      int index = resTexRC.x * '' @ dec (snd ts) @ '' + resTexRC.y;\<newline>'' @
           ''      int r = index / '' @ dec s1 @ '';\<newline>'' @
           ''      int c = index - r * '' @ dec s1 @ '';\<newline>'' @
           ''      return ivec2(r, c);\<newline>'' @
           ''    }\<newline>'' @
           ''  ''))"

subsection \<open>The generators of the samplers\<close>

definition getSamplerScalar :: "string \<Rightarrow> string" where
  "getSamplerScalar texName =
     (let funcName = ''get'' @ toUpperCase (charAt texName 0) @ slice texName 1 in
      (''\<newline>'' @
       ''    float '' @ funcName @ ''() {\<newline>'' @
       ''      return sample('' @ texName @ '', halfCR);\<newline>'' @
       ''    }\<newline>'' @
       ''  ''))"

definition getSampler1D :: "string \<Rightarrow> nat \<times> nat \<Rightarrow> string" where
  "getSampler1D texName ts =
     (let funcName = ''get'' @ toUpperCase (charAt texName 0) @ slice texName 1;
          tR = fst ts; tC = snd ts in
      if fst ts = 1 \<and> snd ts = 1 then
        (''\<newline>'' @
         ''      float '' @ funcName @ ''(int index) {\<newline>'' @
         ''        return sample('' @ texName @ '', halfCR);\<newline>'' @
         ''      }\<newline>'' @
         ''    '')
      else if snd ts = 1 then
        (''\<newline>'' @
         ''      float '' @ funcName @ ''(int index) {\<newline>'' @
         ''        vec2 uv = vec2(0.5, (float(index) + 0.5) / '' @ dec tR @ ''.0);\<newline>'' @
         ''        return sample('' @ texName @ '', uv);\<newline>'' @
         ''      }\<newline>'' @
         ''    '')
      else if fst ts = 1 then
        (''\<newline>'' @
         ''      float '' @ funcName @ ''(int index) {\<newline>'' @
         ''        vec2 uv = vec2((float(index) + 0.5) / '' @ dec tC @ ''.0, 0.5);\<newline>'' @
         ''        return sample('' @ texName @ '', uv);\<newline>'' @
         ''      }\<newline>'' @
         ''    '')
      else
        (''\<newline>'' @
         ''    float '' @ funcName @ ''(int index) {\<newline>'' @
         ''      vec2 uv = UVfrom1D('' @ dec tR @ '', '' @ dec tC @ '', index);\<newline>'' @
         ''      return sample('' @ texName @ '', uv);\<newline>'' @
         ''    }\<newline>'' @
         ''  ''))"

definition getSampler3D :: "string \<Rightarrow> nat \<times> nat \<times> nat \<Rightarrow> nat \<times> nat \<Rightarrow> string" where
  "getSampler3D texName shape ts =
     (case shape of (s0, s1, s2) \<Rightarrow>
        let funcName = ''get'' @ toUpperCase (charAt texName 0) @ slice texName 1;
            tR = fst ts; tC = snd ts;
            stride0 = s1 * s2; stride1 = s2 in
        if tC = stride0 then
          (''\<newline>'' @
           ''      float '' @ funcName @ ''(int row, int col, int depth) {\<newline>'' @
           ''        int texR = row;\<newline>'' @
           ''        int texC = col * '' @ dec stride1 @ '' + depth;\<newline>'' @
           ''        vec2 uv = (vec2(texC, texR) + halfCR) / vec2('' @ dec tC @ ''.0, '' @ dec tR @ ''.0);\<newline>'' @
           ''        return sample('' @ texName @ '', uv);\<newline>'' @
           ''      }\<newline>'' @
           ''    '')
        else
          (''\<newline>'' @
           ''    float '' @ funcName @ ''(int row, int col, int depth) {\<newline>'' @
           ''      vec2 uv = UVfrom3D('' @ dec tR @ '', '' @ dec tC @ '', '' @ dec stride0 @ '', '' @ dec stride1 @ '', row, col, depth);\<newline>'' @
           ''      return sample('' @ texName @ '', uv);\<newline>'' @
           ''    }\<newline>'' @
           ''  ''))"

definition getSampler4D :: "string \<Rightarrow> nat \<times> nat \<times> nat \<times> nat \<Rightarrow> nat \<times> nat \<Rightarrow> string" where
  "getSampler4D texName shape ts =
     (case shape of (s0, s1, s2, s3) \<Rightarrow>
        let funcName = ''get'' @ toUpperCase (charAt texName 0) @ slice texName 1;
            tR = fst ts; tC = snd ts;
            stride2 = s3; stride1 = s2 * stride2; stride0 = s1 * stride1 in
        if tC = stride0 then
          (''\<newline>'' @
           ''      float '' @ funcName @ ''(int row, int col, int depth, int depth2) {\<newline>'' @
           ''        int texR = row;\<newline>'' @
           ''        int texC = col * '' @ dec stride1 @ '' + depth * '' @ dec stride2 @ '' + depth2;\<newline>'' @
           ''        vec2 uv = (vec2(texC, texR) + halfCR) / vec2('' @ dec tC @ ''.0, '' @ dec tR @ ''.0);\<newline>'' @
           ''        return sample('' @ texName @ '', uv);\<newline>'' @
           ''      }\<newline>'' @
           ''    '')
        else
          (''\<newline>'' @
           ''    float '' @ funcName @ ''(int row, int col, int depth, int depth2) {\<newline>'' @
           ''      vec2 uv = UVfrom4D('' @ dec tR @ '', '' @ dec tC @ '', '' @ dec stride0 @ '', '' @ dec stride1 @ '', '' @ dec stride2 @ '',\<newline>'' @
           ''          row, col, depth, depth2);\<newline>'' @
           ''      return sample('' @ texName @ '', uv);\<newline>'' @
           ''    }\<newline>'' @
           ''  ''))"

definition getSampler2D :: "string \<Rightarrow> nat \<times> nat \<Rightarrow> nat \<times> nat \<Rightarrow> string" where
  "getSampler2D texName shape ts =
     (case shape of (s0, s1) \<Rightarrow>
        let funcName = ''get'' @ toUpperCase (charAt texName 0) @ slice texName 1;
            tR = fst ts; tC = snd ts in
        if arraysEqual [s0, s1] [fst ts, snd ts] then
          (''\<newline>'' @
           ''      float '' @ funcName @ ''(int row, int col) {\<newline>'' @
           ''        vec2 uv = (vec2(col, row) + halfCR) / vec2('' @ dec tC @ ''.0, '' @ dec tR @ ''.0);\<newline>'' @
           ''        return sample('' @ texName @ '', uv);\<newline>'' @
           ''      }\<newline>'' @
           ''    '')
        else if tC = 1 then
          (if s0 = 1 then
             (''\<newline>'' @
              ''        float '' @ funcName @ ''(int row, int col) {\<newline>'' @
              ''          vec2 uv = vec2(0.5, (float(col) + 0.5) / '' @ dec tR @ ''.0);\<newline>'' @
              ''          return sample('' @ texName @ '', uv);\<newline>'' @
              ''        }\<newline>'' @
              ''      '')
           else if s1 = 1 then
             (''\<newline>'' @
              ''        float '' @ funcName @ ''(int row, int col) {\<newline>'' @
              ''          vec2 uv = vec2(0.5, (float(row) + 0.5) / '' @ dec tR @ ''.0);\<newline>'' @
              ''          return sample('' @ texName @ '', uv);\<newline>'' @
              ''        }\<newline>'' @
              ''      '')
           else
             (''\<newline>'' @
              ''      float '' @ funcName @ ''(int row, int col) {\<newline>'' @
              ''        int index = row * '' @ dec s1 @ '' + col;\<newline>'' @
              ''        vec2 uv = vec2(0.5, (float(index) + 0.5) / '' @ dec tR @ ''.0);\<newline>'' @
              ''        return sample('' @ texName @ '', uv);\<newline>'' @
              ''      }\<newline>'' @
              ''    ''))
        else if tR = 1 then
          (''\<newline>'' @
           ''      float '' @ funcName @ ''(int row, int col) {\<newline>'' @
           ''        int index = row * '' @ dec s1 @ '' + col;\<newline>'' @
           ''        vec2 uv = vec2((float(index) + 0.5) / '' @ dec tC @ ''.0, 0.5);\<newline>'' @
           ''        return sample('' @ texName @ '', uv);\<newline>'' @
           ''      }\<newline>'' @
           ''    '')
        else
          (''\<newline>'' @
           ''    float '' @ funcName @ ''(int row, int col) {\<newline>'' @
           ''      vec2 uv = UVfrom2D('' @ dec tR @ '', '' @ dec tC @ '', '' @ dec s1 @ '', row, col);\<newline>'' @
           ''      return sample('' @ texName @ '', uv);\<newline>'' @
           ''    }\<newline>'' @
           ''  ''))"

definition getSamplerFlat :: "string \<Rightarrow> nat \<times> nat \<Rightarrow> string" where
  "getSamplerFlat texName ts =
     (let funcName = ''get'' @ toUpperCase (charAt texName 0) @ slice texName 1 @ ''Flat'';
          tNumR = fst ts; tNumC = snd ts in
      if tNumC = 1 \<and> tNumR = 1 then
        (''\<newline>'' @
         ''      float '' @ funcName @ ''(int index) {\<newline>'' @
         ''        return sample('' @ texName @ '', halfCR);\<newline>'' @
         ''      }\<newline>'' @
         ''    '')
      else if tNumC = 1 then
        (''\<newline>'' @
         ''      float '' @ funcName @ ''(int index) {\<newline>'' @
         ''        vec2 uv = vec2(0.5, (float(index) + 0.5) / '' @ dec tNumR @ ''.0);\<newline>'' @
         ''        return sample('' @ texName @ '', uv);\<newline>'' @
         ''      }\<newline>'' @
         ''    '')
      else if tNumR = 1 then
        (''\<newline>'' @
         ''      float '' @ funcName @ ''(int index) {\<newline>'' @
         ''        vec2 uv = vec2((float(index) + 0.5) / '' @ dec tNumC @ ''.0, 0.5);\<newline>'' @
         ''        return sample('' @ texName @ '', uv);\<newline>'' @
         ''      }\<newline>'' @
         ''    '')
      else
        (''\<newline>'' @
         ''    float '' @ funcName @ ''(int index) {\<newline>'' @
         ''      int texR = index / '' @ dec tNumC @ '';\<newline>'' @
         ''      int texC = index - texR * '' @ dec tNumC @ '';\<newline>'' @
         ''      vec2 uv = (vec2(texC, texR) + halfCR) / vec2('' @ dec tNumC @ ''.0, '' @ dec tNumR @ ''.0);\<newline>'' @
         ''      return sample('' @ texName @ '', uv);\<newline>'' @
         ''    }\<newline>'' @
         ''  ''))"

definition getSamplerAtOutputCoords ::
  "string \<Rightarrow> nat \<times> nat \<Rightarrow> nat \<times> nat \<Rightarrow> bool \<Rightarrow> string" where
  "getSamplerAtOutputCoords texName inTexShape outTexShape broadcast =
     (let funcName = ''get'' @ toUpperCase (charAt texName 0) @ slice texName 1 @
            ''AtOutCoords'' in
      if arraysEqual [fst inTexShape, snd inTexShape] [fst outTexShape, snd outTexShape] then
        (''\<newline>'' @
         ''      float '' @ funcName @ ''() {\<newline>'' @
         ''        return sample('' @ texName @ '', resultUV);\<newline>'' @
         ''      }\<newline>'' @
         ''    '')
      else
        let inSize = sizeFromShape [fst inTexShape, snd inTexShape];
            broadcastSnippet = (if broadcast then
              (''\<newline>'' @
               ''      int mainPart = index / '' @ dec inSize @ '';\<newline>'' @
               ''      index -= mainPart * '' @ dec inSize @ '';\<newline>'' @
               ''    '')
            else []) in
        (''\<newline>'' @
         ''    float '' @ funcName @ ''() {\<newline>'' @
         ''      ivec2 resTexRC = ivec2(resultUV.yx *\<newline>'' @
         ''                             vec2('' @ dec (fst outTexShape) @ '', '' @ dec (snd outTexShape) @ ''));\<newline>'' @
         ''      int index = resTexRC.x * '' @ dec (snd outTexShape) @ '' + resTexRC.y;\<newline>'' @
         ''      '' @ broadcastSnippet @ ''\<newline>'' @
         ''      int texR = index / '' @ dec (snd inTexShape) @ '';\<newline>'' @
         ''      int texC = index - texR * '' @ dec (snd inTexShape) @ '';\<newline>'' @
         ''      vec2 uv = (vec2(texC, texR) + halfCR) /\<newline>'' @
         ''                 vec2('' @ dec (snd inTexShape) @ ''.0, '' @ dec (fst inTexShape) @ ''.0);\<newline>'' @
         ''      return sample('' @ texName @ '', uv);\<newline>'' @
         ''    }\<newline>'' @
         ''  ''))"

subsection \<open>The assembler\<close>

text \<open>\<open>ENV.get('WEBGL_FLOAT_TEXTURE_ENABLED')\<close> is the parameter \<open>float_enabled\<close>.\<close>

definition getSampleSnippet :: "bool \<Rightarrow> tex_util \<Rightarrow> string" where
  "getSampleSnippet float_enabled tu =
     (if float_enabled then FLOAT_TEXTURE_SAMPLE_SNIPPET
      else UNSIGNED_BYTE_TEXTURE_SAMPLE_SNIPPET tu)"

definition getSetOutputSnippet :: "bool \<Rightarrow> tex_util \<Rightarrow> ShapeInfo \<Rightarrow> string" where
  "getSetOutputSnippet float_enabled tu outputShapeInfo =
     (if float_enabled then FLOAT_TEXTURE_SETOUTPUT_SNIPPET
      else UNSIGNED_BYTE_TEXTURE_SETOUTPUT_SNIPPET tu)"

definition getInputSamplingSnippet :: "InputInfo \<Rightarrow> ShapeInfo \<Rightarrow> bool \<Rightarrow> error + string" where
  "getInputSamplingSnippet inInfo outShapeInfo broadcast =
     (let shape = logicalShape (shapeInfo inInfo);
          ts = texShape (shapeInfo inInfo);
          outTexShape = texShape outShapeInfo
      in case (case shape of
                 [] \<Rightarrow> Inr ([] @ getSamplerScalar (name inInfo))
               | [s0] \<Rightarrow> Inr ([] @ getSampler1D (name inInfo) ts)
               | [s0, s1] \<Rightarrow> Inr ([] @ getSampler2D (name inInfo) (s0, s1) ts)
               | [s0, s1, s2] \<Rightarrow> Inr ([] @ getSampler3D (name inInfo) (s0, s1, s2) ts)
               | [s0, s1, s2, s3] \<Rightarrow>
                   Inr ([] @ getSampler4D (name inInfo) (s0, s1, s2, s3) ts)
               | _ \<Rightarrow>
                   Inl (Error (dec (length shape) @ ''-D input sampling'' @
                          '' is not yet supported'')))
         of Inl e \<Rightarrow> Inl e
          | Inr res \<Rightarrow>
              let res = (if broadcast \<or> arraysEqual shape (logicalShape outShapeInfo)
                         then res @ getSamplerAtOutputCoords (name inInfo) ts outTexShape broadcast
                         else res);
                  res = res @ getSamplerFlat (name inInfo) ts
              in Inr res)"

definition getOutputSamplingSnippet :: "ShapeInfo \<Rightarrow> error + string" where
  "getOutputSamplingSnippet outputShapeInfo =
     (case logicalShape outputShapeInfo of
        [] \<Rightarrow> Inr []
      | [s0] \<Rightarrow> Inr (getOutput1DCoords s0 (texShape outputShapeInfo))
      | [s0, s1] \<Rightarrow> Inr (getOutput2DCoords (s0, s1) (texShape outputShapeInfo))
      | [s0, s1, s2] \<Rightarrow> Inr (getOutput3DCoords (s0, s1, s2) (texShape outputShapeInfo))
      | [s0, s1, s2, s3] \<Rightarrow>
          Inr (getOutput4DCoords (s0, s1, s2, s3) (texShape outputShapeInfo))
      | _ \<Rightarrow>
          Inl (Error (dec (length (logicalShape outputShapeInfo)) @
                 ''-D output sampling is not yet supported'')))"

text \<open>\<open>inputsInfo.map(f)\<close> for an \<open>f\<close> that may throw: the first error, in list
  order, ends the call.\<close>

fun map_throwing :: "('a \<Rightarrow> error + 'b) \<Rightarrow> 'a list \<Rightarrow> error + 'b list" where
  "map_throwing f [] = Inr []"
| "map_throwing f (x # xs) =
     (case f x of
        Inl e \<Rightarrow> Inl e
      | Inr y \<Rightarrow> (case map_throwing f xs of Inl e \<Rightarrow> Inl e | Inr ys \<Rightarrow> Inr (y # ys)))"

definition makeShader ::
  "bool \<Rightarrow> tex_util \<Rightarrow> InputInfo list \<Rightarrow> ShapeInfo \<Rightarrow> string \<Rightarrow> bool \<Rightarrow> error + string" where
  "makeShader float_enabled tu inputsInfo outputShapeInfo userCode broadcast =
     (let sampleSnippet = getSampleSnippet float_enabled tu;
          inputPrefixSnippet =
            join_nl (map (\<lambda>x. ''uniform sampler2D '' @ name x @ '';'') inputsInfo)
      in case map_throwing (\<lambda>x. getInputSamplingSnippet x outputShapeInfo broadcast) inputsInfo of
           Inl e \<Rightarrow> Inl e
         | Inr snippets \<Rightarrow>
             let inputSamplingSnippet = join_nl snippets in
             (case getOutputSamplingSnippet outputShapeInfo of
                Inl e \<Rightarrow> Inl e
              | Inr outputSamplingSnippet \<Rightarrow>
                  let setOutputSnippet = getSetOutputSnippet float_enabled tu outputShapeInfo;
                      source = join_nl [SHADER_PREFIX, sampleSnippet, setOutputSnippet,
                                 inputPrefixSnippet, inputSamplingSnippet,
                                 outputSamplingSnippet, userCode]
                  in Inr source))"

subsection \<open>Reading a generated declaration\<close>

text \<open>The text of a snippet after its leading blanks and line breaks.\<close>

definition trimStart :: "string \<Rightarrow> string" where
  "trimStart s = dropWhile (\<lambda>c. c = CHR '' '' \<or> c = CHR 0x0A) s"

text \<open>\<open>starts_with p s\<close>: the text \<open>s\<close> begins with \<open>p\<close>.\<close>

definition starts_with :: "string \<Rightarrow> string \<Rightarrow> bool" where
  "starts_with p s = (take (length p) s = p)"

text \<open>The characters on which the model of \<open>toUpperCase\<close> is that of the host
  language.\<close>

definition is_ascii :: "char \<Rightarrow> bool" where
  "is_ascii c = ((of_char c :: nat) < 128)"

text \<open>The name derivation in the words of the specification, written without the
  functions of the generators: the capital of each small letter is read from the
  alphabet, the first character of the name is replaced by its capital, the rest is
  unchanged.\<close>

definition upper_case :: "char \<Rightarrow> char" where
  "upper_case c =
     (case map_of (zip ''abcdefghijklmnopqrstuvwxyz'' ''ABCDEFGHIJKLMNOPQRSTUVWXYZ'') c of
        Some u \<Rightarrow> u
      | None \<Rightarrow> c)"

fun capitalize :: "string \<Rightarrow> string" where
  "capitalize [] = []"
| "capitalize (c # cs) = upper_case c # cs"

section \<open>Properties\<close>

lemma idiv_nonneg: "0 \<le> a \<Longrightarrow> 0 < b \<Longrightarrow> idiv a b = a div b"
  by (simp add: idiv_def signed_divide_int_def sgn_if)

lemma texRC_nonneg:
  "0 \<le> index \<Longrightarrow> 0 < texNumC \<Longrightarrow> texRC texNumC index = (index div texNumC, index mod texNumC)"
  by (simp add: texRC_def idiv_nonneg minus_div_mult_eq_mod)

subsection \<open>Fast path and generic path of the rank 3 and rank 4 samplers\<close>

lemma rem_bound3:
  fixes col depth :: int
  assumes "0 \<le> col" "col < int s1" "0 \<le> depth" "depth < int s2"
  shows "0 \<le> col * int s2 + depth \<and> col * int s2 + depth < int (s1 * s2)"
proof -
  have "col + 1 \<le> int s1" using assms by simp
  then have "(col + 1) * int s2 \<le> int s1 * int s2"
    by (rule mult_right_mono) simp
  then have "col * int s2 + depth < int s1 * int s2"
    using assms by (simp add: algebra_simps)
  moreover have "0 \<le> col * int s2" using assms by simp
  ultimately show ?thesis using assms by simp
qed

lemma texRC_split:
  assumes "0 \<le> q" "0 \<le> r" "r < n"
  shows "texRC n (q * n + r) = (q, r)"
proof -
  have n: "0 < n" using assms by simp
  have "0 \<le> q * n + r" using assms n by simp
  then have "texRC n (q * n + r) = ((q * n + r) div n, (q * n + r) mod n)"
    using n by (rule texRC_nonneg)
  also have "\<dots> = (q, r)" using assms n by simp
  finally show ?thesis .
qed

lemma rem_bound4:
  fixes col depth depth2 :: int
  assumes "0 \<le> col" "col < int s1" "0 \<le> depth" "depth < int s2" "0 \<le> depth2" "depth2 < int s3"
  shows "0 \<le> col * int (s2 * s3) + depth * int s3 + depth2
       \<and> col * int (s2 * s3) + depth * int s3 + depth2 < int (s1 * (s2 * s3))"
proof -
  have a: "0 \<le> depth * int s3 + depth2 \<and> depth * int s3 + depth2 < int (s2 * s3)"
    using assms by (intro rem_bound3) auto
  have "col + 1 \<le> int s1" using assms by simp
  then have "(col + 1) * int (s2 * s3) \<le> int s1 * int (s2 * s3)"
    by (rule mult_right_mono) simp
  then have "col * int (s2 * s3) + (depth * int s3 + depth2) < int s1 * int (s2 * s3)"
    using a by (simp add: algebra_simps)
  moreover have "0 \<le> col * int (s2 * s3)" using assms by simp
  ultimately show ?thesis using a by (simp add: add.assoc)
qed

lemma fast3:
  assumes "snd ts = s1 * s2"
      and "0 \<le> row"
      and "0 \<le> col" and "col < int s1"
      and "0 \<le> depth" and "depth < int s2"
  shows "texRC (int (snd ts)) (index3D (int (s1 * s2)) (int s2) row col depth)
           = (row, col * int s2 + depth)"
proof -
  have b: "0 \<le> col * int s2 + depth \<and> col * int s2 + depth < int (s1 * s2)"
    using assms by (intro rem_bound3) auto
  have "texRC (int (s1 * s2)) (row * int (s1 * s2) + (col * int s2 + depth)) = (row, col * int s2 + depth)"
    using assms(2) b by (intro texRC_split) auto
  then show ?thesis using assms(1) by (simp add: index3D_def add.assoc)
qed

lemma fast4:
  assumes "snd ts = s1 * (s2 * s3)"
      and "0 \<le> row"
      and "0 \<le> col" and "col < int s1"
      and "0 \<le> depth" and "depth < int s2"
      and "0 \<le> depth2" and "depth2 < int s3"
  shows "texRC (int (snd ts)) (index4D (int (s1 * (s2 * s3))) (int (s2 * s3)) (int s3) row col depth depth2)
           = (row, col * int (s2 * s3) + depth * int s3 + depth2)"
proof -
  have b: "0 \<le> col * int (s2 * s3) + depth * int s3 + depth2
       \<and> col * int (s2 * s3) + depth * int s3 + depth2 < int (s1 * (s2 * s3))"
    using assms by (intro rem_bound4) auto
  have "texRC (int (s1 * (s2 * s3))) (row * int (s1 * (s2 * s3)) + (col * int (s2 * s3) + depth * int s3 + depth2))
      = (row, col * int (s2 * s3) + depth * int s3 + depth2)"
    using assms(2) b by (intro texRC_split) auto
  then show ?thesis using assms(1) by (simp add: index4D_def add.assoc)
qed

text \<open>
  C5. For a rank 3 or rank 4 shape whose texture has as many columns as the product of
  all dimensions but the first (\<open>tC = stride0\<close>), and for coordinates within the
  shape, the texel address of the fast path (\<open>texR = row\<close>, \<open>texC\<close> the
  multiply-accumulate of the other coordinates) is the one of the generic path: the flat
  index of the stride law, divided by the number of columns for \<open>texR\<close>, the
  remainder for \<open>texC\<close>. The sampled coordinate is then that of \<open>UVfrom3D\<close>,
  \<open>UVfrom4D\<close>.
\<close>

theorem fast_path_texel_eq_generic:
  assumes "snd ts = s1 * s2"
      and "0 \<le> row" and "row < int s0"
      and "0 \<le> col" and "col < int s1"
      and "0 \<le> depth" and "depth < int s2"
      and "snd ts' = t1 * (t2 * t3)"
      and "0 \<le> row'" and "row' < int t0"
      and "0 \<le> col'" and "col' < int t1"
      and "0 \<le> depth'" and "depth' < int t2"
      and "0 \<le> depth2" and "depth2 < int t3"
  shows "(let flat = index3D (int (s1 * s2)) (int s2) row col depth in
            getSampler3D_texel (s0, s1, s2) ts row col depth = texRC (int (snd ts)) flat
          \<and> getSampler3D_texel (s0, s1, s2) ts row col depth
              = (flat div int (snd ts), flat mod int (snd ts))
          \<and> getSampler3D_uv (s0, s1, s2) ts row col depth
              = UVfrom3D (int (fst ts)) (int (snd ts)) (int (s1 * s2)) (int s2) row col depth)
       \<and> (let flat = index4D (int (t1 * (t2 * t3))) (int (t2 * t3)) (int t3) row' col' depth' depth2 in
            getSampler4D_texel (t0, t1, t2, t3) ts' row' col' depth' depth2 = texRC (int (snd ts')) flat
          \<and> getSampler4D_texel (t0, t1, t2, t3) ts' row' col' depth' depth2
              = (flat div int (snd ts'), flat mod int (snd ts'))
          \<and> getSampler4D_uv (t0, t1, t2, t3) ts' row' col' depth' depth2
              = UVfrom4D (int (fst ts')) (int (snd ts')) (int (t1 * (t2 * t3))) (int (t2 * t3)) (int t3)
                  row' col' depth' depth2)"
proof -
  let ?f3 = "index3D (int (s1 * s2)) (int s2) row col depth"
  let ?f4 = "index4D (int (t1 * (t2 * t3))) (int (t2 * t3)) (int t3) row' col' depth' depth2"
  have g3: "texRC (int (snd ts)) ?f3 = (row, col * int s2 + depth)"
    using assms(1,2,4-7) by (rule fast3)
  have g4: "texRC (int (snd ts')) ?f4 = (row', col' * int (t2 * t3) + depth' * int t3 + depth2)"
    using assms(8,9,11-16) by (rule fast4)
  have p3: "0 < int (snd ts)" using assms(1,4-7) by (auto intro: Nat.gr0I)
  have p4: "0 < int (snd ts')" using assms(8,11-16) by (auto intro: Nat.gr0I)
  have n3: "0 \<le> ?f3" using assms(2,4,6) by (simp add: index3D_def)
  have n4: "0 \<le> ?f4" using assms(9,11,13,15) by (simp add: index4D_def)
  have d3: "(row, col * int s2 + depth) = (?f3 div int (snd ts), ?f3 mod int (snd ts))"
    using g3 texRC_nonneg [OF n3 p3] by simp
  have d4: "(row', col' * int (t2 * t3) + depth' * int t3 + depth2)
      = (?f4 div int (snd ts'), ?f4 mod int (snd ts'))"
    using g4 texRC_nonneg [OF n4 p4] by simp
  have a3: "getSampler3D_texel (s0, s1, s2) ts row col depth = (row, col * int s2 + depth)"
    using assms(1) by (simp add: getSampler3D_texel_def)
  have a4: "getSampler4D_texel (t0, t1, t2, t3) ts' row' col' depth' depth2
      = (row', col' * int (t2 * t3) + depth' * int t3 + depth2)"
    using assms(8) by (simp add: getSampler4D_texel_def)
  have u3: "getSampler3D_uv (s0, s1, s2) ts row col depth
      = UVfrom3D (int (fst ts)) (int (snd ts)) (int (s1 * s2)) (int s2) row col depth"
    using assms(1) g3 by (simp add: getSampler3D_uv_def UVfrom3D_def)
  have u4: "getSampler4D_uv (t0, t1, t2, t3) ts' row' col' depth' depth2
      = UVfrom4D (int (fst ts')) (int (snd ts')) (int (t1 * (t2 * t3))) (int (t2 * t3)) (int t3)
                  row' col' depth' depth2"
    using assms(8) g4 by (simp add: getSampler4D_uv_def UVfrom4D_def)
  show ?thesis unfolding Let_def using a3 a4 g3 g4 d3 d4 u3 u4 by simp
qed

theorem fast_path_texel_eq_generic_witness:
  "snd (2::nat, 6::nat) = 3 * 2 \<and> (0::int) \<le> 1 \<and> (1::int) < int 2
   \<and> (0::int) \<le> 2 \<and> (2::int) < int 3 \<and> (0::int) \<le> 1 \<and> (1::int) < int 2
   \<and> snd (2::nat, 12::nat) = 2 * (3 * 2) \<and> (0::int) \<le> 1 \<and> (1::int) < int 2
   \<and> (0::int) \<le> 1 \<and> (1::int) < int 2 \<and> (0::int) \<le> 2 \<and> (2::int) < int 3
   \<and> (0::int) \<le> 1 \<and> (1::int) < int 2
   \<and> getSampler3D_texel (2, 3, 2) (2, 6) 1 2 1 = texRC 6 (index3D 6 2 1 2 1)
   \<and> getSampler3D_texel (2, 3, 2) (2, 6) 1 2 1 = (1, 5)
   \<and> getSampler3D_uv (2, 3, 2) (2, 6) 1 2 1 = UVfrom3D 2 6 6 2 1 2 1
   \<and> getSampler4D_texel (2, 2, 3, 2) (2, 12) 1 1 2 1 = texRC 12 (index4D 12 6 2 1 1 2 1)
   \<and> getSampler4D_texel (2, 2, 3, 2) (2, 12) 1 1 2 1 = (1, 11)
   \<and> getSampler4D_uv (2, 2, 3, 2) (2, 12) 1 1 2 1 = UVfrom4D 2 12 12 6 2 1 1 2 1"
  using fast_path_texel_eq_generic [of "(2, 6)" 3 2 1 2 2 1 "(2, 12)" 2 3 2 1 2 1 2 1]
  by (simp add: index3D_def index4D_def texRC_def idiv_def signed_divide_int_def)

subsection \<open>Decoding the output coordinates and recomposing the flat index\<close>

lemma float_to_int_centre:
  assumes "0 \<le> k" "0 < n"
  shows "float_to_int ((real_of_int k + 1 / 2) / real n * real n) = k"
proof -
  have "(real_of_int k + 1 / 2) / real n * real n = real_of_int k + 1 / 2"
    using assms by simp
  moreover have "\<lfloor>real_of_int k + 1 / 2\<rfloor> = k" by linarith
  moreover have "0 \<le> real_of_int k + 1 / 2" using assms by simp
  ultimately show ?thesis by (simp add: float_to_int_def)
qed

lemma resTexRC_centre:
  assumes "0 \<le> r" "0 \<le> c" "0 < fst ts" "0 < snd ts"
  shows "resTexRC ts (texelUV c r (int (snd ts)) (int (fst ts))) = (r, c)"
  using assms float_to_int_centre [of r "fst ts"] float_to_int_centre [of c "snd ts"]
  by (simp add: resTexRC_def texelUV_def halfCR_def)

lemma outIndex_centre:
  assumes "0 \<le> r" "0 \<le> c" "0 < fst ts" "0 < snd ts"
  shows "outIndex ts (texelUV c r (int (snd ts)) (int (fst ts))) = r * int (snd ts) + c"
  using resTexRC_centre [OF assms] by (simp add: outIndex_def)

lemma outIndex_flat:
  assumes "0 \<le> i" "0 < fst ts" "0 < snd ts"
  shows "outIndex ts
           (texelUV (i mod int (snd ts)) (i div int (snd ts)) (int (snd ts)) (int (fst ts))) = i"
proof -
  have "0 \<le> i div int (snd ts)" "0 \<le> i mod int (snd ts)"
    using assms by (simp_all add: pos_imp_zdiv_nonneg_iff)
  then show ?thesis
    using outIndex_centre [of "i div int (snd ts)" "i mod int (snd ts)" ts] assms by simp
qed

lemma round_trip_1D:
  assumes "s0 \<le> fst ts * snd ts" "0 \<le> i" "i < int s0"
  shows "getOutputCoords_1D s0 ts
           (texelUV (i mod int (snd ts)) (i div int (snd ts)) (int (snd ts)) (int (fst ts))) = i"
proof -
  have lt: "i < int (fst ts * snd ts)" using assms by linarith
  then have pos: "0 < fst ts" "0 < snd ts" using assms(2) by (auto intro: Nat.gr0I)
  have nn: "0 \<le> i div int (snd ts)" "0 \<le> i mod int (snd ts)"
    using assms pos by (simp_all add: pos_imp_zdiv_nonneg_iff)
  have rc: "resTexRC ts
              (texelUV (i mod int (snd ts)) (i div int (snd ts)) (int (snd ts)) (int (fst ts)))
            = (i div int (snd ts), i mod int (snd ts))"
    using nn pos by (rule resTexRC_centre)
  show ?thesis
  proof (cases "fst ts = 1")
    case True
    then have "i mod int (snd ts) = i" using lt assms(2) by simp
    with rc True show ?thesis by (simp add: getOutputCoords_1D_def resTexRC_def)
  next
    case False
    show ?thesis
    proof (cases "snd ts = 1")
      case True
      with rc False show ?thesis by (simp add: getOutputCoords_1D_def resTexRC_def)
    next
      case False
      with \<open>fst ts \<noteq> 1\<close> outIndex_flat [OF assms(2) pos] show ?thesis
        by (simp add: getOutputCoords_1D_def)
    qed
  qed
qed

lemma round_trip_2D:
  assumes "0 \<le> i" "0 < fst ts" "0 < snd ts"
  shows "(case getOutputCoords_2D (s0, s1) ts
                 (texelUV (i mod int (snd ts)) (i div int (snd ts)) (int (snd ts)) (int (fst ts)))
          of (r, c) \<Rightarrow> index2D (int s1) r c) = i"
proof -
  have nn: "0 \<le> i div int (snd ts)" "0 \<le> i mod int (snd ts)"
    using assms by (simp_all add: pos_imp_zdiv_nonneg_iff)
  have rc: "resTexRC ts
              (texelUV (i mod int (snd ts)) (i div int (snd ts)) (int (snd ts)) (int (fst ts)))
            = (i div int (snd ts), i mod int (snd ts))"
    using nn assms(2,3) by (rule resTexRC_centre)
  show ?thesis using rc outIndex_flat [OF assms]
    by (simp add: getOutputCoords_2D_def arraysEqual_def index2D_def Let_def)
qed

lemma round_trip_3D:
  assumes "0 \<le> i" "0 < fst ts" "0 < snd ts"
  shows "(case getOutputCoords_3D (s0, s1, s2) ts
                 (texelUV (i mod int (snd ts)) (i div int (snd ts)) (int (snd ts)) (int (fst ts)))
          of (r, c, d) \<Rightarrow> index3D (int (s1 * s2)) (int s2) r c d) = i"
  using outIndex_flat [OF assms]
  by (simp add: getOutputCoords_3D_def index3D_def Let_def)

lemma round_trip_4D:
  assumes "0 \<le> i" "0 < fst ts" "0 < snd ts"
  shows "(case getOutputCoords_4D (s0, s1, s2, s3) ts
                 (texelUV (i mod int (snd ts)) (i div int (snd ts)) (int (snd ts)) (int (fst ts)))
          of (r, c, d, d2) \<Rightarrow>
            index4D (int (s1 * (s2 * s3))) (int (s2 * s3)) (int s3) r c d d2) = i"
  using outIndex_flat [OF assms]
  by (simp add: getOutputCoords_4D_def index4D_def Let_def)

lemma texShape_pos:
  assumes "sizeFromShape sh \<le> fst ts * snd ts" "i < int (sizeFromShape sh)" "0 \<le> i"
  shows "0 < fst ts \<and> 0 < snd ts"
proof -
  have "0 < fst ts * snd ts" using assms by linarith
  then show ?thesis by simp
qed

text \<open>
  C6. For a logical shape of rank 1 to 4 and a flat index \<open>i\<close> below its number of
  elements, the fragment whose texel has flat index \<open>i\<close> (row \<open>i div texCols\<close>,
  column \<open>i mod texCols\<close>) decodes through \<open>getOutputCoords\<close> to coordinates that
  the stride law of the \<open>UVfrom\<close> helper of the same rank recomposes to \<open>i\<close>.
\<close>

theorem coordinate_round_trip:
  assumes "1 \<le> length shape" and "length shape \<le> 4"
      and "sizeFromShape shape \<le> fst ts * snd ts"
      and "0 \<le> i" and "i < int (sizeFromShape shape)"
  shows "\<exists>coords.
           getOutputCoords shape ts
             (texelUV (i mod int (snd ts)) (i div int (snd ts)) (int (snd ts)) (int (fst ts)))
             = Some coords
         \<and> flatIndex shape coords = Some i"
proof -
  have pos: "0 < fst ts" "0 < snd ts" using texShape_pos [OF assms(3,5,4)] by simp_all
  consider (r1) s0 where "shape = [s0]"
    | (r2) s0 s1 where "shape = [s0, s1]"
    | (r3) s0 s1 s2 where "shape = [s0, s1, s2]"
    | (r4) s0 s1 s2 s3 where "shape = [s0, s1, s2, s3]"
    using assms(1,2)
    by (cases shape; cases "tl shape"; cases "tl (tl shape)";
        cases "tl (tl (tl shape))"; cases "tl (tl (tl (tl shape)))") auto
  then show ?thesis
  proof cases
    case r1
    have "s0 \<le> fst ts * snd ts" "i < int s0"
      using assms(3,5) r1 by (simp_all add: sizeFromShape_def)
    from round_trip_1D [OF this(1) assms(4) this(2)] r1 show ?thesis
      by (simp add: getOutputCoords_def flatIndex_def)
  next
    case r2
    with round_trip_2D [OF assms(4) pos, where ?s0.0 = s0 and ?s1.0 = s1] show ?thesis
      by (auto simp: getOutputCoords_def flatIndex_def split: prod.splits)
  next
    case r3
    with round_trip_3D [OF assms(4) pos, where ?s0.0 = s0 and ?s1.0 = s1 and ?s2.0 = s2]
    show ?thesis
      by (auto simp: getOutputCoords_def flatIndex_def split: prod.splits)
  next
    case r4
    with round_trip_4D [OF assms(4) pos, where ?s0.0 = s0 and ?s1.0 = s1 and ?s2.0 = s2
        and ?s3.0 = s3]
    show ?thesis
      by (auto simp: getOutputCoords_def flatIndex_def split: prod.splits)
  qed
qed

theorem coordinate_round_trip_witness:
  "1 \<le> length [2, 3, 2::nat] \<and> length [2, 3, 2::nat] \<le> 4
   \<and> sizeFromShape [2, 3, 2] \<le> fst (3::nat, 4::nat) * snd (3::nat, 4::nat)
   \<and> (0::int) \<le> 7 \<and> (7::int) < int (sizeFromShape [2, 3, 2])
   \<and> (\<exists>coords. getOutputCoords [2, 3, 2] (3, 4) (texelUV 3 1 4 3) = Some coords
          \<and> flatIndex [2, 3, 2] coords = Some 7)"
  using coordinate_round_trip [of "[2, 3, 2]" "(3, 4)" 7]
  by (simp add: sizeFromShape_def)

lemma div_bound:
  fixes i :: int
  assumes "0 \<le> i" "i < int (a * b)"
  shows "0 \<le> i div int b \<and> i div int b < int a \<and> 0 \<le> i mod int b \<and> i mod int b < int b"
proof -
  have b: "0 < int b" using assms by (cases "b = 0") auto
  have "i div int b < int a"
  proof (rule ccontr)
    assume "\<not> i div int b < int a"
    then have "int a \<le> i div int b" by simp
    then have "int b * int a \<le> int b * (i div int b)" using b by (simp add: mult_left_mono)
    moreover have "int b * (i div int b) + i mod int b = i" by (rule mult_div_mod_eq)
    moreover have "0 \<le> i mod int b" using b by simp
    ultimately have "int b * int a \<le> i" by linarith
    then show False using assms(2) by (simp add: mult.commute)
  qed
  moreover have "0 \<le> i div int b" using assms(1) b by (simp add: pos_imp_zdiv_nonneg_iff)
  ultimately show ?thesis using b by simp
qed

lemma in_range_2D:
  assumes "s0 * s1 \<le> fst ts * snd ts" "0 \<le> i" "i < int (s0 * s1)"
  shows "case getOutputCoords_2D (s0, s1) ts
                 (texelUV (i mod int (snd ts)) (i div int (snd ts)) (int (snd ts)) (int (fst ts)))
         of (r, c) \<Rightarrow> 0 \<le> r \<and> r < int s0 \<and> 0 \<le> c \<and> c < int s1"
proof -
  have "i < int (fst ts * snd ts)" using assms by linarith
  then have "0 < fst ts * snd ts" using assms(2) by linarith
  then have pos: "0 < fst ts" "0 < snd ts" by simp_all
  let ?uv = "texelUV (i mod int (snd ts)) (i div int (snd ts)) (int (snd ts)) (int (fst ts))"
  have nn: "0 \<le> i div int (snd ts)" "0 \<le> i mod int (snd ts)"
    using assms pos by (simp_all add: pos_imp_zdiv_nonneg_iff)
  have rc: "resTexRC ts ?uv = (i div int (snd ts), i mod int (snd ts))"
    using nn pos by (rule resTexRC_centre)
  have idx: "outIndex ts ?uv = i" using assms(2) pos by (rule outIndex_flat)
  have s1: "0 < int s1" using assms(2,3) by (cases "s1 = 0") auto
  have gen: "0 \<le> i div int s1 \<and> i div int s1 < int s0 \<and> 0 \<le> i mod int s1 \<and> i mod int s1 < int s1"
    using assms(2,3) by (rule div_bound)
  have q: "idiv i (int s1) = i div int s1" using assms(2) s1 by (rule idiv_nonneg)
  show ?thesis
  proof (cases "arraysEqual [s0, s1] [fst ts, snd ts]")
    case True
    then have "s0 = fst ts" "s1 = snd ts" by (simp_all add: arraysEqual_def)
    with rc gen True show ?thesis by (simp add: getOutputCoords_2D_def)
  next
    case False
    then show ?thesis using idx gen q assms(2,3)
      by (auto simp: getOutputCoords_2D_def Let_def minus_div_mult_eq_mod)
  qed
qed

lemma in_range_3D:
  assumes "0 < fst ts" "0 < snd ts" "0 \<le> i" "i < int (s0 * (s1 * s2))"
  shows "case getOutputCoords_3D (s0, s1, s2) ts
                 (texelUV (i mod int (snd ts)) (i div int (snd ts)) (int (snd ts)) (int (fst ts)))
         of (r, c, d) \<Rightarrow> 0 \<le> r \<and> r < int s0 \<and> 0 \<le> c \<and> c < int s1 \<and> 0 \<le> d \<and> d < int s2"
proof -
  let ?uv = "texelUV (i mod int (snd ts)) (i div int (snd ts)) (int (snd ts)) (int (fst ts))"
  have idx: "outIndex ts ?uv = i" using assms(3,1,2) by (rule outIndex_flat)
  have a: "0 \<le> i div int (s1 * s2) \<and> i div int (s1 * s2) < int s0
      \<and> 0 \<le> i mod int (s1 * s2) \<and> i mod int (s1 * s2) < int (s1 * s2)"
    using assms(3,4) by (rule div_bound)
  let ?j = "i mod int (s1 * s2)"
  have b: "0 \<le> ?j div int s2 \<and> ?j div int s2 < int s1 \<and> 0 \<le> ?j mod int s2 \<and> ?j mod int s2 < int s2"
    using a by (intro div_bound) simp_all
  have p0: "0 < int (s1 * s2)" using a by linarith
  have p1: "0 < int s2" using b by linarith
  have q0: "idiv i (int (s1 * s2)) = i div int (s1 * s2)" using assms(3) p0 by (rule idiv_nonneg)
  have r0: "i - i div int (s1 * s2) * int (s1 * s2) = ?j" by (simp add: minus_div_mult_eq_mod)
  have q1: "idiv ?j (int s2) = ?j div int s2" using a p1 by (intro idiv_nonneg) simp_all
  have r1: "?j - ?j div int s2 * int s2 = ?j mod int s2" by (simp add: minus_div_mult_eq_mod)
  show ?thesis
    unfolding getOutputCoords_3D_def Let_def prod.case idx q0 r0 q1 r1 using a b by simp
qed

lemma in_range_4D:
  assumes "0 < fst ts" "0 < snd ts" "0 \<le> i" "i < int (s0 * (s1 * (s2 * s3)))"
  shows "case getOutputCoords_4D (s0, s1, s2, s3) ts
                 (texelUV (i mod int (snd ts)) (i div int (snd ts)) (int (snd ts)) (int (fst ts)))
         of (r, c, d, d2) \<Rightarrow> 0 \<le> r \<and> r < int s0 \<and> 0 \<le> c \<and> c < int s1
              \<and> 0 \<le> d \<and> d < int s2 \<and> 0 \<le> d2 \<and> d2 < int s3"
proof -
  let ?uv = "texelUV (i mod int (snd ts)) (i div int (snd ts)) (int (snd ts)) (int (fst ts))"
  have idx: "outIndex ts ?uv = i" using assms(3,1,2) by (rule outIndex_flat)
  let ?n0 = "int (s1 * (s2 * s3))"
  let ?n1 = "int (s2 * s3)"
  have a: "0 \<le> i div ?n0 \<and> i div ?n0 < int s0 \<and> 0 \<le> i mod ?n0 \<and> i mod ?n0 < ?n0"
    using assms(3,4) by (rule div_bound)
  let ?j = "i mod ?n0"
  have b: "0 \<le> ?j div ?n1 \<and> ?j div ?n1 < int s1 \<and> 0 \<le> ?j mod ?n1 \<and> ?j mod ?n1 < ?n1"
    using a by (intro div_bound) simp_all
  let ?k = "?j mod ?n1"
  have c: "0 \<le> ?k div int s3 \<and> ?k div int s3 < int s2 \<and> 0 \<le> ?k mod int s3 \<and> ?k mod int s3 < int s3"
    using b by (intro div_bound) simp_all
  have p0: "0 < ?n0" using a by linarith
  have p1: "0 < ?n1" using b by linarith
  have p2: "0 < int s3" using c by linarith
  have q0: "idiv i ?n0 = i div ?n0" using assms(3) p0 by (rule idiv_nonneg)
  have r0: "i - i div ?n0 * ?n0 = ?j" by (simp add: minus_div_mult_eq_mod)
  have q1: "idiv ?j ?n1 = ?j div ?n1" using a p1 by (intro idiv_nonneg) simp_all
  have r1: "?j - ?j div ?n1 * ?n1 = ?k" by (simp add: minus_div_mult_eq_mod)
  have q2: "idiv ?k (int s3) = ?k div int s3" using b p2 by (intro idiv_nonneg) simp_all
  have r2: "?k - ?k div int s3 * int s3 = ?k mod int s3" by (simp add: minus_div_mult_eq_mod)
  show ?thesis
    unfolding getOutputCoords_4D_def Let_def prod.case idx q0 r0 q1 r1 q2 r2 using a b c by simp
qed

text \<open>The decoded coordinates lie within the logical shape, so the decomposition is the
  one of the row-major layout.\<close>

lemma decoded_coordinates_in_range:
  assumes "1 \<le> length shape" and "length shape \<le> 4"
      and "sizeFromShape shape \<le> fst ts * snd ts"
      and "0 \<le> i" and "i < int (sizeFromShape shape)"
  shows "\<exists>coords.
           getOutputCoords shape ts
             (texelUV (i mod int (snd ts)) (i div int (snd ts)) (int (snd ts)) (int (fst ts)))
             = Some coords
         \<and> list_all2 (\<lambda>c s. 0 \<le> c \<and> c < int s) coords shape"
proof -
  have pos: "0 < fst ts" "0 < snd ts" using texShape_pos [OF assms(3,5,4)] by simp_all
  consider (r1) s0 where "shape = [s0]"
    | (r2) s0 s1 where "shape = [s0, s1]"
    | (r3) s0 s1 s2 where "shape = [s0, s1, s2]"
    | (r4) s0 s1 s2 s3 where "shape = [s0, s1, s2, s3]"
    using assms(1,2)
    by (cases shape; cases "tl shape"; cases "tl (tl shape)";
        cases "tl (tl (tl shape))"; cases "tl (tl (tl (tl shape)))") auto
  then show ?thesis
  proof cases
    case r1
    have "s0 \<le> fst ts * snd ts" "i < int s0"
      using assms(3,5) r1 by (simp_all add: sizeFromShape_def)
    from round_trip_1D [OF this(1) assms(4) this(2)] r1 this(2) assms(4) show ?thesis
      by (simp add: getOutputCoords_def)
  next
    case r2
    have "s0 * s1 \<le> fst ts * snd ts" "i < int (s0 * s1)"
      using assms(3,5) r2 by (simp_all add: sizeFromShape_def)
    from in_range_2D [OF this(1) assms(4) this(2)] r2 show ?thesis
      by (auto simp: getOutputCoords_def split: prod.splits)
  next
    case r3
    have "i < int (s0 * (s1 * s2))"
      using assms(5) r3 by (simp add: sizeFromShape_def)
    from in_range_3D [OF pos assms(4) this] r3 show ?thesis
      by (auto simp: getOutputCoords_def split: prod.splits)
  next
    case r4
    have "i < int (s0 * (s1 * (s2 * s3)))"
      using assms(5) r4 by (simp add: sizeFromShape_def)
    from in_range_4D [OF pos assms(4) this] r4 show ?thesis
      by (auto simp: getOutputCoords_def split: prod.splits)
  qed
qed

subsection \<open>The broadcast accessor\<close>

lemma getSamplerFlat_uv_texel:
  assumes "0 \<le> index" "index < int (fst ts * snd ts)"
  shows "getSamplerFlat_uv ts index
       = texelUV (index mod int (snd ts)) (index div int (snd ts)) (int (snd ts)) (int (fst ts))"
proof -
  have "0 < fst ts * snd ts" using assms by linarith
  then have pos: "0 < fst ts" "0 < snd ts" by simp_all
  show ?thesis
  proof (cases "snd ts = 1")
    case True
    then show ?thesis using assms
      by (auto simp: getSamplerFlat_uv_def texelUV_def halfCR_def Let_def)
  next
    case c: False
    show ?thesis
    proof (cases "fst ts = 1")
      case True
      then have "index mod int (snd ts) = index" "index div int (snd ts) = 0"
        using assms by simp_all
      with True c show ?thesis
        by (simp add: getSamplerFlat_uv_def texelUV_def halfCR_def Let_def)
    next
      case False
      have "idiv index (int (snd ts)) = index div int (snd ts)"
        using assms(1) pos(2) by (intro idiv_nonneg) simp_all
      with False c show ?thesis
        by (simp add: getSamplerFlat_uv_def Let_def minus_div_mult_eq_mod)
    qed
  qed
qed

lemma broadcast_index:
  assumes "0 < fst inTexShape" "0 < snd inTexShape"
      and "0 < fst outTexShape" "0 < snd outTexShape"
      and "0 \<le> texR" "0 \<le> texC"
  shows "getSamplerAtOutputCoords_index inTexShape outTexShape True
           (texelUV texC texR (int (snd outTexShape)) (int (fst outTexShape)))
         = (texR * int (snd outTexShape) + texC) mod int (fst inTexShape * snd inTexShape)"
proof -
  let ?index = "texR * int (snd outTexShape) + texC"
  have rc: "resTexRC outTexShape (texelUV texC texR (int (snd outTexShape)) (int (fst outTexShape)))
      = (texR, texC)"
    using assms(5,6,3,4) by (rule resTexRC_centre)
  have nn: "0 \<le> ?index" using assms by simp
  have sz: "0 < int (fst inTexShape * snd inTexShape)" using assms by simp
  have "?index - idiv ?index (int (fst inTexShape * snd inTexShape)) * int (fst inTexShape * snd inTexShape)
      = ?index mod int (fst inTexShape * snd inTexShape)"
    using idiv_nonneg [OF nn sz] by (simp add: minus_div_mult_eq_mod)
  then show ?thesis using rc
    by (simp add: getSamplerAtOutputCoords_index_def sizeFromShape_def Let_def)
qed

text \<open>
  C1. With the broadcast flag set and an input whose texture shape differs from the
  output's, the accessor \<open>get<Name>AtOutCoords\<close>, run for the fragment at texel
  \<open>(texR, texC)\<close> of the output, forms the flat index
  \<open>texR * outTexCols + texC\<close>, reduces it modulo the number of texels of the
  input's texture (rows times columns of its texture shape), and samples the centre of
  the texel at row \<open>index div inTexCols\<close>, column \<open>index mod inTexCols\<close>, the
  coordinate that \<open>get<Name>Flat\<close> samples for the reduced index. The modulus is the
  number of elements of the input when its texture holds exactly its elements. A rank 0
  input whose texture is the single texel is sampled at the centre of that texel from
  every fragment of the output. On a texture with more texels than elements neither of
  the last two holds: a fragment of flat index 3 reads index 3 of a 3-element input on a
  2 by 2 texture, and two fragments read two different texels of it.
\<close>

theorem broadcast_accessor:
  assumes "0 < fst inTexShape" and "0 < snd inTexShape"
      and "0 \<le> texR" and "texR < int (fst outTexShape)"
      and "0 \<le> texC" and "texC < int (snd outTexShape)"
  shows "(let resultUV = texelUV texC texR (int (snd outTexShape)) (int (fst outTexShape));
              index = texR * int (snd outTexShape) + texC;
              reduced = index mod int (sizeFromShape [fst inTexShape, snd inTexShape])
          in (inTexShape \<noteq> outTexShape \<longrightarrow>
                getSamplerAtOutputCoords_index inTexShape outTexShape True resultUV = reduced
              \<and> getSamplerAtOutputCoords_uv inTexShape outTexShape True resultUV
                  = texelUV (reduced mod int (snd inTexShape)) (reduced div int (snd inTexShape))
                      (int (snd inTexShape)) (int (fst inTexShape))
              \<and> getSamplerAtOutputCoords_uv inTexShape outTexShape True resultUV
                  = getSamplerFlat_uv inTexShape reduced)
           \<and> (inTexShape \<noteq> outTexShape
                \<and> fst inTexShape * snd inTexShape = sizeFromShape inLogicalShape \<longrightarrow>
                getSamplerAtOutputCoords_index inTexShape outTexShape True resultUV
                  = index mod int (sizeFromShape inLogicalShape))
           \<and> (fst scalarTexShape * snd scalarTexShape = sizeFromShape [] \<longrightarrow>
                getSamplerAtOutputCoords_uv scalarTexShape outTexShape True resultUV
                  = texelUV 0 0 1 1))"
proof -
  let ?uv = "texelUV texC texR (int (snd outTexShape)) (int (fst outTexShape))"
  have opos: "0 < fst outTexShape" "0 < snd outTexShape" using assms(3-6) by linarith+
  have neq: "getSamplerAtOutputCoords_index inS outTexShape True ?uv
        = (texR * int (snd outTexShape) + texC) mod int (fst inS * snd inS)
      \<and> getSamplerAtOutputCoords_uv inS outTexShape True ?uv
        = texelUV ((texR * int (snd outTexShape) + texC) mod int (fst inS * snd inS)
                    mod int (snd inS))
            ((texR * int (snd outTexShape) + texC) mod int (fst inS * snd inS) div int (snd inS))
            (int (snd inS)) (int (fst inS))"
    if ne: "inS \<noteq> outTexShape" and ipos: "0 < fst inS" "0 < snd inS" for inS
  proof -
    let ?n = "int (fst inS * snd inS)"
    let ?red = "(texR * int (snd outTexShape) + texC) mod ?n"
    have idx: "getSamplerAtOutputCoords_index inS outTexShape True ?uv = ?red"
      using ipos opos assms(3,5) by (rule broadcast_index)
    have "0 < ?n" using ipos by simp
    then have "0 \<le> ?red" by simp
    then have tex: "idiv ?red (int (snd inS)) = ?red div int (snd inS)"
      using ipos(2) by (intro idiv_nonneg) simp_all
    have "\<not> arraysEqual [fst inS, snd inS] [fst outTexShape, snd outTexShape]"
      using ne by (simp add: arraysEqual_def prod_eq_iff)
    then have "getSamplerAtOutputCoords_uv inS outTexShape True ?uv
        = texelUV (?red mod int (snd inS)) (?red div int (snd inS)) (int (snd inS)) (int (fst inS))"
      using tex idx
      by (simp add: getSamplerAtOutputCoords_uv_def Let_def minus_div_mult_eq_mod)
    with idx show ?thesis by simp
  qed
  let ?n = "int (fst inTexShape * snd inTexShape)"
  let ?red = "(texR * int (snd outTexShape) + texC) mod ?n"
  have npos: "0 < ?n" using assms(1,2) by simp
  have red: "0 \<le> ?red" "?red < ?n" using npos by simp_all
  have flat: "getSamplerFlat_uv inTexShape ?red
      = texelUV (?red mod int (snd inTexShape)) (?red div int (snd inTexShape))
          (int (snd inTexShape)) (int (fst inTexShape))"
    using red by (rule getSamplerFlat_uv_texel)
  have scalar: "getSamplerAtOutputCoords_uv scalarTexShape outTexShape True ?uv = texelUV 0 0 1 1"
    if one: "fst scalarTexShape * snd scalarTexShape = sizeFromShape []"
  proof -
    have i1: "fst scalarTexShape = 1" "snd scalarTexShape = 1"
      using one by (simp_all add: sizeFromShape_def)
    show ?thesis
    proof (cases "scalarTexShape = outTexShape")
      case True
      then have "fst outTexShape = 1" "snd outTexShape = 1" using i1 by simp_all
      then have "texR = 0" "texC = 0" using assms(3-6) by simp_all
      with True i1 show ?thesis
        by (simp add: getSamplerAtOutputCoords_uv_def arraysEqual_def)
    next
      case False
      from neq [OF False] i1 show ?thesis by simp
    qed
  qed
  have logical: "getSamplerAtOutputCoords_index inTexShape outTexShape True ?uv
      = (texR * int (snd outTexShape) + texC) mod int (sizeFromShape inLogicalShape)"
    if "inTexShape \<noteq> outTexShape"
      and "fst inTexShape * snd inTexShape = sizeFromShape inLogicalShape"
    using neq [OF that(1) assms(1,2)] that(2) by simp
  have sz: "sizeFromShape [fst inTexShape, snd inTexShape] = fst inTexShape * snd inTexShape"
    by (simp add: sizeFromShape_def)
  show ?thesis
    unfolding Let_def sz using neq [of inTexShape] assms(1,2) flat scalar logical
    by simp
qed


theorem broadcast_accessor_witness:
  "0 < fst (2::nat, 2::nat) \<and> 0 < snd (2::nat, 2::nat)
   \<and> (0::int) \<le> 2 \<and> (2::int) < int (fst (3::nat, 4::nat))
   \<and> (0::int) \<le> 1 \<and> (1::int) < int (snd (3::nat, 4::nat))
   \<and> (2::nat, 2::nat) \<noteq> (3, 4)
   \<and> fst (2::nat, 2::nat) * snd (2::nat, 2::nat) = sizeFromShape [4]
   \<and> fst (1::nat, 1::nat) * snd (1::nat, 1::nat) = sizeFromShape []
   \<and> getSamplerAtOutputCoords_index (2, 2) (3, 4) True (texelUV 1 2 4 3) = 1
   \<and> getSamplerAtOutputCoords_uv (2, 2) (3, 4) True (texelUV 1 2 4 3) = texelUV 1 0 2 2
   \<and> getSamplerAtOutputCoords_uv (2, 2) (3, 4) True (texelUV 1 2 4 3) = getSamplerFlat_uv (2, 2) 1
   \<and> getSamplerAtOutputCoords_index (2, 2) (3, 4) True (texelUV 1 2 4 3)
       = (2 * 4 + 1) mod int (sizeFromShape [4])
   \<and> getSamplerAtOutputCoords_uv (1, 1) (3, 4) True (texelUV 1 2 4 3) = texelUV 0 0 1 1"
  using broadcast_accessor [of "(2, 2)" 2 "(3, 4)" 1 "[4]" "(1, 1)"]
  by (simp add: sizeFromShape_def Let_def getSamplerFlat_uv_def idiv_def signed_divide_int_def)

theorem broadcast_accessor_counterexample:
  "getSamplerAtOutputCoords_index (2, 2) (1, 4) True (texelUV 3 0 4 1) = 3
   \<and> (0 * int (snd (1::nat, 4::nat)) + 3) mod int (sizeFromShape [3]) = 0
   \<and> getSamplerAtOutputCoords_uv (2, 2) (1, 4) True (texelUV 0 0 4 1) = (1 / 4, 1 / 4)
   \<and> getSamplerAtOutputCoords_uv (2, 2) (1, 4) True (texelUV 1 0 4 1) = (3 / 4, 1 / 4)"
  by (simp add: getSamplerAtOutputCoords_index_def getSamplerAtOutputCoords_uv_def
      arraysEqual_def sizeFromShape_def resTexRC_def texelUV_def halfCR_def float_to_int_def
      idiv_def signed_divide_int_def Let_def)

subsection \<open>The quantized codec: round trip and sentinel\<close>

lemma digit_step:
  fixes x :: real
  shows "x = real_of_int \<lfloor>x\<rfloor> + (frac x * 255) / 255"
  by (simp add: frac_def diff_divide_distrib)

lemma floor_frac255: "0 \<le> \<lfloor>frac (x::real) * 255\<rfloor> \<and> \<lfloor>frac x * 255\<rfloor> \<le> 254"
proof -
  have "frac x * 255 < 255" "0 \<le> frac x * 255"
    using frac_lt_1 [of x] frac_ge_0 [of x] by simp_all
  then show ?thesis by linarith
qed

lemma round_byte: "\<lfloor>real_of_int k / 255 * 255 + 1 / 2\<rfloor> = k"
proof -
  have "real_of_int k / 255 * 255 + 1 / 2 = real_of_int k + 1 / 2" by simp
  then show ?thesis by linarith
qed

lemma byte_channelI: "0 \<le> k \<Longrightarrow> k \<le> 255 \<Longrightarrow> byte_channel (real_of_int k / 255)"
  by (simp add: byte_channel_def)

lemma setOutput_Val:
  "setOutput minValue maxValue nanValue (Val v) =
     (let a = (v - minValue) / range_c minValue maxValue;
          b = frac a * 255; c = frac b * 255; d = frac c * 255
      in (real_of_int \<lfloor>a\<rfloor> / 255, real_of_int \<lfloor>b\<rfloor> / 255,
          real_of_int \<lfloor>c\<rfloor> / 255, real_of_int \<lfloor>d\<rfloor> / 255))"
  by (simp add: setOutput_def isNaN_def dot2_def recipRange_def Let_def diff_divide_distrib)

lemma sample_bytes:
  assumes "(real_of_int A / 255, real_of_int B / 255, real_of_int C / 255, real_of_int D / 255)
             \<noteq> vec4_of nanValue"
  shows "sample minValue maxValue nanValue
           (real_of_int A / 255, real_of_int B / 255, real_of_int C / 255, real_of_int D / 255)
         = Val (minValue + (real_of_int A + real_of_int B / 255 + real_of_int C / 255 ^ 2
                  + real_of_int D / 255 ^ 3) * range_c minValue maxValue)"
  using assms
  by (simp add: sample_def round_byte dot4_def dot2_def floatDeltas_def dotRange_def
      power2_eq_square power3_eq_cube)

lemma expansion:
  fixes a :: real
  defines "b \<equiv> frac a * 255"
  defines "c \<equiv> frac b * 255"
  defines "d \<equiv> frac c * 255"
  shows "a = real_of_int \<lfloor>a\<rfloor> + real_of_int \<lfloor>b\<rfloor> / 255 + real_of_int \<lfloor>c\<rfloor> / 255 ^ 2
             + real_of_int \<lfloor>d\<rfloor> / 255 ^ 3 + frac d / 255 ^ 3"
proof -
  have 1: "a = real_of_int \<lfloor>a\<rfloor> + b / 255" unfolding b_def by (rule digit_step)
  have 2: "b = real_of_int \<lfloor>b\<rfloor> + c / 255" unfolding c_def by (rule digit_step)
  have 3: "c = real_of_int \<lfloor>c\<rfloor> + d / 255" unfolding d_def by (rule digit_step)
  have 4: "d = real_of_int \<lfloor>d\<rfloor> + frac d" by (simp add: frac_def)
  have "a = real_of_int \<lfloor>a\<rfloor> + (real_of_int \<lfloor>b\<rfloor> + (real_of_int \<lfloor>c\<rfloor>
            + (real_of_int \<lfloor>d\<rfloor> + frac d) / 255) / 255) / 255"
    using 1 2 3 4 by simp
  then show ?thesis by (simp add: power2_eq_square power3_eq_cube add_divide_distrib)
qed


lemma codec_error:
  assumes "minValue < maxValue"
      and "setOutput minValue maxValue nanValue (Val v) \<noteq> vec4_of nanValue"
  shows "\<exists>w. sample minValue maxValue nanValue (setOutput minValue maxValue nanValue (Val v)) = Val w
           \<and> 0 \<le> v - w \<and> v - w < (maxValue - minValue) / 255 ^ 4"
proof -
  let ?r = "range_c minValue maxValue"
  define a where "a = (v - minValue) / ?r"
  define b where "b = frac a * 255"
  define c where "c = frac b * 255"
  define d where "d = frac c * 255"
  have rpos: "0 < ?r" using assms(1) by (simp add: range_c_def)
  have enc: "setOutput minValue maxValue nanValue (Val v)
      = (real_of_int \<lfloor>a\<rfloor> / 255, real_of_int \<lfloor>b\<rfloor> / 255,
         real_of_int \<lfloor>c\<rfloor> / 255, real_of_int \<lfloor>d\<rfloor> / 255)"
    by (simp add: setOutput_Val Let_def a_def b_def c_def d_def)
  define w where "w = minValue + (real_of_int \<lfloor>a\<rfloor> + real_of_int \<lfloor>b\<rfloor> / 255
      + real_of_int \<lfloor>c\<rfloor> / 255 ^ 2 + real_of_int \<lfloor>d\<rfloor> / 255 ^ 3) * ?r"
  have dec: "sample minValue maxValue nanValue (setOutput minValue maxValue nanValue (Val v)) = Val w"
    using assms(2) unfolding enc w_def by (rule sample_bytes)
  have exp: "a = real_of_int \<lfloor>a\<rfloor> + real_of_int \<lfloor>b\<rfloor> / 255 + real_of_int \<lfloor>c\<rfloor> / 255 ^ 2
             + real_of_int \<lfloor>d\<rfloor> / 255 ^ 3 + frac d / 255 ^ 3"
    unfolding b_def c_def d_def by (rule expansion)
  have v: "v = minValue + a * ?r" using rpos by (simp add: a_def)
  have "v - w = (a - (real_of_int \<lfloor>a\<rfloor> + real_of_int \<lfloor>b\<rfloor> / 255
      + real_of_int \<lfloor>c\<rfloor> / 255 ^ 2 + real_of_int \<lfloor>d\<rfloor> / 255 ^ 3)) * ?r"
    unfolding w_def using v by (simp add: algebra_simps)
  also have "\<dots> = frac d / 255 ^ 3 * ?r" using exp by simp
  finally have diff: "v - w = frac d / 255 ^ 3 * ?r" .
  have f: "0 \<le> frac d" "frac d < 1" by (simp_all add: frac_lt_1)
  have ge: "0 \<le> v - w" unfolding diff using f(1) rpos by simp
  have "frac d / 255 ^ 3 * ?r < 1 / 255 ^ 3 * ?r"
    using f(2) rpos by (simp add: divide_strict_right_mono)
  also have "1 / 255 ^ 3 * ?r = (maxValue - minValue) / 255 ^ 4"
    by (simp add: range_c_def)
  finally have "v - w < (maxValue - minValue) / 255 ^ 4" unfolding diff .
  with dec ge show ?thesis by blast
qed

lemma encode_bytes:
  assumes "minValue < maxValue" "minValue \<le> v" "v \<le> maxValue"
  shows "case setOutput minValue maxValue nanValue (Val v) of (c0, c1, c2, c3) \<Rightarrow>
           byte_channel c0 \<and> byte_channel c1 \<and> byte_channel c2 \<and> byte_channel c3"
proof -
  let ?r = "range_c minValue maxValue"
  define a where "a = (v - minValue) / ?r"
  have rpos: "0 < ?r" using assms(1) by (simp add: range_c_def)
  have "0 \<le> a" using assms rpos by (simp add: a_def)
  moreover have "a \<le> 255" using assms rpos by (simp add: a_def range_c_def field_simps)
  ultimately have A: "0 \<le> \<lfloor>a\<rfloor>" "\<lfloor>a\<rfloor> \<le> 255" by (simp_all add: floor_le_iff) 
  have F: "0 \<le> \<lfloor>frac x * 255\<rfloor> \<and> \<lfloor>frac x * 255\<rfloor> \<le> 255" for x :: real
    using floor_frac255 [of x] by simp
  show ?thesis
    using A F by (simp add: setOutput_Val Let_def a_def [symmetric] byte_channelI)
qed


lemma floor_frac_add:
  fixes e :: real
  assumes "0 \<le> e" "e < 1"
  shows "\<lfloor>real_of_int k + e\<rfloor> = k \<and> frac (real_of_int k + e) = e"
proof -
  have "\<lfloor>real_of_int k + e\<rfloor> = k" using assms by linarith
  then show ?thesis by (simp add: frac_def)
qed

lemma digits_of_window:
  fixes a :: real
  assumes "0 \<le> k" "k \<le> 254"
      and "real_of_int k + real_of_int k / 255 + real_of_int k / 255 ^ 2 + real_of_int k / 255 ^ 3 \<le> a"
      and "a < real_of_int k + real_of_int k / 255 + real_of_int k / 255 ^ 2
                + real_of_int k / 255 ^ 3 + 1 / 255 ^ 3"
  shows "\<lfloor>a\<rfloor> = k \<and> \<lfloor>frac a * 255\<rfloor> = k \<and> \<lfloor>frac (frac a * 255) * 255\<rfloor> = k
       \<and> \<lfloor>frac (frac (frac a * 255) * 255) * 255\<rfloor> = k"
proof -
  let ?k = "real_of_int k"
  have kb: "0 \<le> ?k" "?k \<le> 254" using assms(1,2) by simp_all
  define e4 where "e4 = (a - ?k - ?k / 255 - ?k / 255 ^ 2 - ?k / 255 ^ 3) * 255 ^ 3"
  define e3 where "e3 = (?k + e4) / 255"
  define e2 where "e2 = (?k + e3) / 255"
  define e1 where "e1 = (?k + e2) / 255"
  have b4: "0 \<le> e4" "e4 < 1" using assms(3,4) by (simp_all add: e4_def field_simps)
  have b3: "0 \<le> e3" "e3 < 1" using kb b4 by (simp_all add: e3_def)
  have b2: "0 \<le> e2" "e2 < 1" using kb b3 by (simp_all add: e2_def)
  have b1: "0 \<le> e1" "e1 < 1" using kb b2 by (simp_all add: e1_def)
  have a: "a = ?k + e1"
    by (simp add: e1_def e2_def e3_def e4_def field_simps)
  have A: "\<lfloor>a\<rfloor> = k" "frac a = e1"
    unfolding a using floor_frac_add [OF b1, of k] by blast+
  have b: "frac a * 255 = ?k + e2" unfolding A e1_def by simp
  have B: "\<lfloor>frac a * 255\<rfloor> = k" "frac (frac a * 255) = e2"
    unfolding b using floor_frac_add [OF b2, of k] by blast+
  have c: "frac (frac a * 255) * 255 = ?k + e3" unfolding B e2_def by simp
  have C: "\<lfloor>frac (frac a * 255) * 255\<rfloor> = k" "frac (frac (frac a * 255) * 255) = e3"
    unfolding c using floor_frac_add [OF b3, of k] by blast+
  have d: "frac (frac (frac a * 255) * 255) * 255 = ?k + e4" unfolding C e3_def by simp
  have D: "\<lfloor>frac (frac (frac a * 255) * 255) * 255\<rfloor> = k"
    unfolding d using floor_frac_add [OF b4, of k] by blast
  from A(1) B(1) C(1) D show ?thesis by simp
qed

lemma window_of_digits:
  fixes a :: real
  assumes "\<lfloor>a\<rfloor> = k" "\<lfloor>frac a * 255\<rfloor> = k" "\<lfloor>frac (frac a * 255) * 255\<rfloor> = k"
      and "\<lfloor>frac (frac (frac a * 255) * 255) * 255\<rfloor> = k"
  shows "real_of_int k + real_of_int k / 255 + real_of_int k / 255 ^ 2 + real_of_int k / 255 ^ 3 \<le> a
       \<and> a < real_of_int k + real_of_int k / 255 + real_of_int k / 255 ^ 2
                + real_of_int k / 255 ^ 3 + 1 / 255 ^ 3"
proof -
  let ?d = "frac (frac (frac a * 255) * 255) * 255"
  have "a = real_of_int \<lfloor>a\<rfloor> + real_of_int \<lfloor>frac a * 255\<rfloor> / 255
             + real_of_int \<lfloor>frac (frac a * 255) * 255\<rfloor> / 255 ^ 2
             + real_of_int \<lfloor>?d\<rfloor> / 255 ^ 3 + frac ?d / 255 ^ 3"
    by (rule expansion)
  then have e: "a = real_of_int k + real_of_int k / 255 + real_of_int k / 255 ^ 2
             + real_of_int k / 255 ^ 3 + frac ?d / 255 ^ 3"
    unfolding assms .
  have f: "0 \<le> frac ?d / 255 ^ 3" "frac ?d / 255 ^ 3 < 1 / 255 ^ 3"
    using frac_ge_0 [of ?d] frac_lt_1 [of ?d] by (simp_all add: divide_strict_right_mono)
  from e f show ?thesis by linarith
qed

lemma setOutput_sentinel_iff:
  assumes "minValue < maxValue"
  shows "setOutput minValue maxValue nanValue (Val v) = vec4_of nanValue
           \<longleftrightarrow> sentinel_window minValue maxValue nanValue v"
proof -
  let ?r = "range_c minValue maxValue"
  define a where "a = (v - minValue) / ?r"
  have rpos: "0 < ?r" using assms by (simp add: range_c_def)
  have v: "v = minValue + ?r * a" using rpos by (simp add: a_def)
  have bound: "(maxValue - minValue) / 255 ^ 4 = ?r * (1 / 255 ^ 3)"
    by (simp add: range_c_def)
  have enc: "setOutput minValue maxValue nanValue (Val v)
      = (real_of_int \<lfloor>a\<rfloor> / 255, real_of_int \<lfloor>frac a * 255\<rfloor> / 255,
         real_of_int \<lfloor>frac (frac a * 255) * 255\<rfloor> / 255,
         real_of_int \<lfloor>frac (frac (frac a * 255) * 255) * 255\<rfloor> / 255)"
    by (simp add: setOutput_Val Let_def a_def)
  show ?thesis
  proof
    assume eq: "setOutput minValue maxValue nanValue (Val v) = vec4_of nanValue"
    define k where "k = \<lfloor>frac a * 255\<rfloor>"
    have n: "nanValue * 255 = real_of_int k"
      using eq unfolding enc vec4_of_def k_def by simp
    have d: "\<lfloor>a\<rfloor> = k" "\<lfloor>frac a * 255\<rfloor> = k" "\<lfloor>frac (frac a * 255) * 255\<rfloor> = k"
        "\<lfloor>frac (frac (frac a * 255) * 255) * 255\<rfloor> = k"
      using eq n unfolding enc vec4_of_def k_def by simp_all
    have kb: "0 \<le> k" "k \<le> 254" unfolding k_def using floor_frac255 [of a] by simp_all
    have w: "real_of_int k + real_of_int k / 255 + real_of_int k / 255 ^ 2 + real_of_int k / 255 ^ 3 \<le> a"
      "a < real_of_int k + real_of_int k / 255 + real_of_int k / 255 ^ 2
                + real_of_int k / 255 ^ 3 + 1 / 255 ^ 3"
      using window_of_digits [OF d] by simp_all
    let ?s = "real_of_int k + real_of_int k / 255 + real_of_int k / 255 ^ 2 + real_of_int k / 255 ^ 3"
    have lo: "minValue + ?r * ?s \<le> v" unfolding v using w(1) rpos by simp
    have "?r * a < ?r * (?s + 1 / 255 ^ 3)" using w(2) rpos by simp
    then have hi: "v < minValue + ?r * ?s + (maxValue - minValue) / 255 ^ 4"
      unfolding bound v by (simp add: algebra_simps)
    show "sentinel_window minValue maxValue nanValue v"
      unfolding sentinel_window_def Let_def n using kb lo hi by simp
  next
    assume w: "sentinel_window minValue maxValue nanValue v"
    define k where "k = \<lfloor>nanValue * 255\<rfloor>"
    have "real_of_int \<lfloor>nanValue * 255\<rfloor> = nanValue * 255"
      using w unfolding sentinel_window_def Let_def by blast
    then have n: "nanValue * 255 = real_of_int k"
      unfolding k_def by (rule sym)
    let ?s = "real_of_int k + real_of_int k / 255 + real_of_int k / 255 ^ 2 + real_of_int k / 255 ^ 3"
    have kb: "0 \<le> k" "k \<le> 254"
      using w unfolding sentinel_window_def Let_def n by simp_all
    have lo: "minValue + ?r * ?s \<le> v" and hi: "v < minValue + ?r * ?s + (maxValue - minValue) / 255 ^ 4"
      using w unfolding sentinel_window_def Let_def n by simp_all
    have "?r * ?s \<le> ?r * a" using lo unfolding v by simp
    then have w1: "?s \<le> a" using rpos by simp
    have "?r * a < ?r * (?s + 1 / 255 ^ 3)"
      using hi unfolding bound v by (simp add: algebra_simps)
    then have w2: "a < ?s + 1 / 255 ^ 3" using rpos by simp
    have d: "\<lfloor>a\<rfloor> = k \<and> \<lfloor>frac a * 255\<rfloor> = k \<and> \<lfloor>frac (frac a * 255) * 255\<rfloor> = k
       \<and> \<lfloor>frac (frac (frac a * 255) * 255) * 255\<rfloor> = k"
      using kb w1 w2 by (rule digits_of_window)
    have nv: "nanValue = real_of_int k / 255" using n by simp
    show "setOutput minValue maxValue nanValue (Val v) = vec4_of nanValue"
      unfolding enc vec4_of_def using d nv by simp
  qed
qed

text \<open>
  C2. Under the quantized codec, with exact arithmetic: a value \<open>v\<close> within
  \<open>[minValue, maxValue]\<close> is encoded to four channels that are bytes over 255, and
  decoding them gives a number within \<open>(maxValue - minValue) / 255 ^ 4\<close> of
  \<open>v\<close>, provided the four channels are not the sentinel pattern (when they are,
  decoding gives not-a-number). Decoding the
  encoding of not-a-number gives not-a-number.
\<close>

theorem codec_round_trip:
  assumes "minValue < maxValue" and "minValue \<le> v" and "v \<le> maxValue"
      and "setOutput minValue maxValue nanValue (Val v) \<noteq> vec4_of nanValue"
  shows "(case setOutput minValue maxValue nanValue (Val v) of (c0, c1, c2, c3) \<Rightarrow>
            byte_channel c0 \<and> byte_channel c1 \<and> byte_channel c2 \<and> byte_channel c3)
       \<and> (case sample minValue maxValue nanValue (setOutput minValue maxValue nanValue (Val v)) of
            NaN \<Rightarrow> False
          | Val w \<Rightarrow> \<bar>w - v\<bar> \<le> (maxValue - minValue) / 255 ^ 4)
       \<and> sample minValue maxValue nanValue (setOutput minValue maxValue nanValue NaN) = NaN"
proof -
  obtain w where w: "sample minValue maxValue nanValue
        (setOutput minValue maxValue nanValue (Val v)) = Val w"
      "0 \<le> v - w" "v - w < (maxValue - minValue) / 255 ^ 4"
    using codec_error [OF assms(1,4)] by blast
  have "\<bar>w - v\<bar> \<le> (maxValue - minValue) / 255 ^ 4" using w(2,3) by linarith
  moreover have "sample minValue maxValue nanValue (setOutput minValue maxValue nanValue NaN) = NaN"
    by (simp add: setOutput_def isNaN_def sample_def)
  ultimately show ?thesis using encode_bytes [OF assms(1-3)] w(1) by simp
qed

theorem codec_round_trip_witness:
  "(-1::real) < 1 \<and> (-1::real) \<le> 1 / 2 \<and> (1 / 2::real) \<le> 1
   \<and> setOutput (-1) 1 0 (Val (1 / 2)) \<noteq> vec4_of 0
   \<and> setOutput (-1) 1 0 (Val (1 / 2)) = (191 / 255, 63 / 255, 191 / 255, 63 / 255)
   \<and> sample (-1) 1 0 (setOutput (-1) 1 0 (Val (1 / 2))) = Val (704708437 / 1409416875)
   \<and> \<bar>704708437 / 1409416875 - 1 / 2\<bar> \<le> ((1::real) - (-1)) / 255 ^ 4
   \<and> sample (-1) 1 0 (setOutput (-1) 1 0 NaN) = NaN"
proof -
  have enc: "setOutput (-1) 1 0 (Val (1 / 2)) = (191 / 255, 63 / 255, 191 / 255, 63 / 255)"
    by (simp add: setOutput_def isNaN_def dot2_def recipRange_def range_c_def frac_def)
  have ne: "setOutput (-1) 1 0 (Val (1 / 2)) \<noteq> vec4_of 0"
    unfolding enc by (simp add: vec4_of_def)
  have dec: "sample (-1) 1 0 (191 / 255, 63 / 255, 191 / 255, 63 / 255) = Val (704708437 / 1409416875)"
    by (simp add: sample_def vec4_of_def dot4_def dot2_def floatDeltas_def dotRange_def range_c_def)
  show ?thesis
    using codec_round_trip [of "-1" 1 "1 / 2" 0] ne enc dec by simp
qed

text \<open>
  C3. Under the quantized codec, the channels that the encode arithmetic produces for a
  number \<open>v\<close> within \<open>[minValue, maxValue]\<close> are all equal to the sentinel channel
  value exactly when \<open>v\<close> lies in the window of that sentinel, and decoding them
  takes the sentinel branch exactly then; for every other \<open>v\<close> in range the
  channels are not the sentinel pattern and the sentinel branch is not reached. For the
  sentinel 0 the window is \<open>v - minValue < (maxValue - minValue) / 255\<^sup>4\<close>; for a
  sentinel that is not \<open>k / 255\<close> with an integer \<open>k\<close> from 0 to 254 it is empty.
\<close>

theorem sentinel_encoded_iff:
  assumes "minValue < maxValue" and "minValue \<le> v" and "v \<le> maxValue"
  shows "(setOutput minValue maxValue nanValue (Val v) = vec4_of nanValue
            \<longleftrightarrow> sentinel_window minValue maxValue nanValue v)
       \<and> (sample minValue maxValue nanValue (setOutput minValue maxValue nanValue (Val v)) = NaN
            \<longleftrightarrow> sentinel_window minValue maxValue nanValue v)
       \<and> (nanValue = 0 \<longrightarrow>
            (sentinel_window minValue maxValue nanValue v
               \<longleftrightarrow> v - minValue < (maxValue - minValue) / 255 ^ 4))"
proof -
  have enc: "setOutput minValue maxValue nanValue (Val v) = vec4_of nanValue
           \<longleftrightarrow> sentinel_window minValue maxValue nanValue v"
    using assms(1) by (rule setOutput_sentinel_iff)
  have "sample minValue maxValue nanValue (setOutput minValue maxValue nanValue (Val v)) = NaN
      \<longleftrightarrow> setOutput minValue maxValue nanValue (Val v) = vec4_of nanValue"
    by (auto simp: sample_def Let_def split: prod.splits)
  then have dec: "sample minValue maxValue nanValue (setOutput minValue maxValue nanValue (Val v)) = NaN
      \<longleftrightarrow> sentinel_window minValue maxValue nanValue v"
    using enc by simp
  have zero: "sentinel_window minValue maxValue nanValue v
      \<longleftrightarrow> v - minValue < (maxValue - minValue) / 255 ^ 4" if "nanValue = 0"
  proof -
    define B where "B = (maxValue - minValue) / 255 ^ 4"
    have "sentinel_window minValue maxValue 0 v \<longleftrightarrow> minValue \<le> v \<and> v < minValue + B"
      unfolding sentinel_window_def Let_def B_def by simp
    also have "\<dots> \<longleftrightarrow> v - minValue < B" using assms(2) by auto
    finally show ?thesis unfolding that B_def .
  qed
  from enc dec zero show ?thesis by blast
qed

theorem sentinel_encoded_iff_witness:
  "(-1::real) < 1 \<and> (-1::real) \<le> 1 / 2 \<and> (1 / 2::real) \<le> 1
   \<and> \<not> sentinel_window (-1) 1 0 (1 / 2)
   \<and> \<not> (1 / 2 - (-1) < ((1::real) - (-1)) / 255 ^ 4)
   \<and> setOutput (-1) 1 0 (Val (1 / 2)) \<noteq> vec4_of 0
   \<and> sample (-1) 1 0 (setOutput (-1) 1 0 (Val (1 / 2))) \<noteq> NaN"
  using sentinel_encoded_iff [of "-1" 1 "1 / 2" 0]
  by (simp add: sentinel_window_def range_c_def)

theorem sentinel_encoded_counterexample:
  "setOutput (-1) 1 0 (Val (-1)) = vec4_of 0"
  by (simp add: setOutput_def isNaN_def dot2_def recipRange_def range_c_def vec4_of_def frac_def)

theorem codec_round_trip_counterexample:
  "sample (-1) 1 0 (setOutput (-1) 1 0 (Val (-1))) = NaN"
  by (simp add: sample_def setOutput_def isNaN_def dot2_def recipRange_def range_c_def
      vec4_of_def frac_def)

subsection \<open>The assembler: errors and packing formats\<close>

lemma map_throwing_Inr_iff:
  "map_throwing f xs = Inr ys \<longleftrightarrow> map f xs = map Inr ys"
proof (induction xs arbitrary: ys)
  case Nil
  then show ?case by auto
next
  case (Cons x xs)
  show ?case
  proof (cases "f x")
    case (Inl e)
    then show ?thesis by (cases ys) auto
  next
    case (Inr y)
    show ?thesis
    proof (cases ys)
      case Nil
      with Inr show ?thesis by (simp split: sum.splits)
    next
      case (Cons y' ys')
      have "map_throwing f xs = Inr ys' \<longleftrightarrow> map f xs = map Inr ys'" by (rule Cons.IH)
      with Inr Cons show ?thesis by (cases "map_throwing f xs") auto
    qed
  qed
qed

lemma long_list:
  "4 < length xs \<Longrightarrow> \<exists>a b c d e r. xs = a # b # c # d # e # r"
  by (cases xs; cases "tl xs"; cases "tl (tl xs)"; cases "tl (tl (tl xs))";
      cases "tl (tl (tl (tl xs)))") auto

lemma map_throwing_find:
  assumes "find (\<lambda>x. isl (f x)) xs = Some x"
  shows "map_throwing f xs = Inl (projl (f x))"
  using assms
proof (induction xs)
  case Nil
  then show ?case by simp
next
  case (Cons a xs)
  then show ?case by (cases "f a") (auto split: sum.splits)
qed

lemma map_throwing_total:
  assumes "find (\<lambda>x. isl (f x)) xs = None"
  shows "map_throwing f xs = Inr (map (\<lambda>x. projr (f x)) xs)"
  using assms
proof (induction xs)
  case Nil
  then show ?case by simp
next
  case (Cons a xs)
  then show ?case by (cases "f a") (auto split: if_splits)
qed

lemma rank_cases:
  obtains (r0) "shape = []"
  | (r1) s0 where "shape = [s0]"
  | (r2) s0 s1 where "shape = [s0, s1]"
  | (r3) s0 s1 s2 where "shape = [s0, s1, s2]"
  | (r4) s0 s1 s2 s3 where "shape = [s0, s1, s2, s3]"
  | (big) "4 < length (shape :: nat list)"
  by (cases shape; cases "tl shape"; cases "tl (tl shape)";
      cases "tl (tl (tl shape))"; cases "tl (tl (tl (tl shape)))") auto

lemma input_rank_error:
  assumes "4 < length (logicalShape (shapeInfo inInfo))"
  shows "getInputSamplingSnippet inInfo outShapeInfo broadcast =
     Inl (Error (dec (length (logicalShape (shapeInfo inInfo)))
            @ ''-D input sampling is not yet supported''))"
proof -
  obtain a b c d e r where "logicalShape (shapeInfo inInfo) = a # b # c # d # e # r"
    using long_list [OF assms] by blast
  then show ?thesis by (simp add: getInputSamplingSnippet_def)
qed

lemma input_rank_ok:
  assumes "length (logicalShape (shapeInfo inInfo)) \<le> 4"
  shows "\<not> isl (getInputSamplingSnippet inInfo outShapeInfo broadcast)"
  using assms
  by (cases "logicalShape (shapeInfo inInfo)" rule: rank_cases)
     (simp_all add: getInputSamplingSnippet_def Let_def)

lemma input_isl_iff:
  "isl (getInputSamplingSnippet inInfo outShapeInfo broadcast)
     \<longleftrightarrow> 4 < length (logicalShape (shapeInfo inInfo))"
  using input_rank_error [of inInfo outShapeInfo broadcast]
    input_rank_ok [of inInfo outShapeInfo broadcast]
  by (cases "4 < length (logicalShape (shapeInfo inInfo))") auto

lemma output_rank_error:
  assumes "4 < length (logicalShape outputShapeInfo)"
  shows "getOutputSamplingSnippet outputShapeInfo =
     Inl (Error (dec (length (logicalShape outputShapeInfo))
            @ ''-D output sampling is not yet supported''))"
proof -
  obtain a b c d e r where "logicalShape outputShapeInfo = a # b # c # d # e # r"
    using long_list [OF assms] by blast
  then show ?thesis by (simp add: getOutputSamplingSnippet_def)
qed

lemma output_rank_ok:
  assumes "length (logicalShape outputShapeInfo) \<le> 4"
  shows "\<not> isl (getOutputSamplingSnippet outputShapeInfo)"
  using assms
  by (cases "logicalShape outputShapeInfo" rule: rank_cases)
     (simp_all add: getOutputSamplingSnippet_def)

text \<open>
  C7. A descriptor whose logical shape has more than four dimensions makes the compilation
  fail: the first such input, in list order, with the error of the input samplers; when
  no input is such but the output is, with the error of the output decoder. The result is
  then the error alone, without any shader text. (A rank is a list length, so there is
  no rank below 0.)
\<close>

theorem unsupported_rank_fails:
  "(find (\<lambda>x. 4 < length (logicalShape (shapeInfo x))) inputsInfo = Some inInfo \<longrightarrow>
      makeShader float_enabled tu inputsInfo outputShapeInfo userCode broadcast =
        Inl (Error (dec (length (logicalShape (shapeInfo inInfo)))
               @ ''-D input sampling is not yet supported'')))
   \<and> (find (\<lambda>x. 4 < length (logicalShape (shapeInfo x))) inputsInfo = None
        \<and> 4 < length (logicalShape outputShapeInfo) \<longrightarrow>
      makeShader float_enabled tu inputsInfo outputShapeInfo userCode broadcast =
        Inl (Error (dec (length (logicalShape outputShapeInfo))
               @ ''-D output sampling is not yet supported'')))
   \<and> ((\<exists>x \<in> set inputsInfo. 4 < length (logicalShape (shapeInfo x)))
        \<or> 4 < length (logicalShape outputShapeInfo) \<longrightarrow>
      isl (makeShader float_enabled tu inputsInfo outputShapeInfo userCode broadcast))"
proof -
  let ?f = "\<lambda>x. getInputSamplingSnippet x outputShapeInfo broadcast"
  let ?big = "\<lambda>x. 4 < length (logicalShape (shapeInfo x))"
  let ?res = "makeShader float_enabled tu inputsInfo outputShapeInfo userCode broadcast"
  have feq: "(\<lambda>x. isl (?f x)) = ?big"
    by (simp add: input_isl_iff)
  have inp: "?res = Inl (Error (dec (length (logicalShape (shapeInfo y)))
               @ ''-D input sampling is not yet supported''))"
    if a: "find ?big inputsInfo = Some y" for y
  proof -
    have big: "?big y" using a by (auto simp: find_Some_iff)
    have "map_throwing ?f inputsInfo = Inl (projl (?f y))"
      using a feq map_throwing_find [of ?f inputsInfo y] by simp
    then show ?thesis
      using input_rank_error [OF big, of outputShapeInfo broadcast]
      by (simp add: makeShader_def)
  qed
  have outp: "?res = Inl (Error (dec (length (logicalShape outputShapeInfo))
               @ ''-D output sampling is not yet supported''))"
    if a: "find ?big inputsInfo = None" and b: "4 < length (logicalShape outputShapeInfo)"
  proof -
    have "map_throwing ?f inputsInfo = Inr (map (\<lambda>x. projr (?f x)) inputsInfo)"
      using a feq map_throwing_total [of ?f inputsInfo] by simp
    then show ?thesis
      using output_rank_error [OF b] by (simp add: makeShader_def)
  qed
  have any: "isl ?res"
    if "(\<exists>x \<in> set inputsInfo. ?big x) \<or> 4 < length (logicalShape outputShapeInfo)"
  proof (cases "find ?big inputsInfo")
    case None
    then have "4 < length (logicalShape outputShapeInfo)"
      using that by (auto simp: find_None_iff)
    with None outp show ?thesis by simp
  next
    case (Some y)
    with inp show ?thesis by simp
  qed
  from inp outp any show ?thesis by blast
qed

theorem unsupported_rank_fails_witness:
  "find (\<lambda>x. 4 < length (logicalShape (shapeInfo x)))
      [\<lparr>name = ''a'', shapeInfo = \<lparr>logicalShape = [2], texShape = (1, 2),
           textureChannelPackingFormat = R\<rparr>\<rparr>,
       \<lparr>name = ''b'', shapeInfo = \<lparr>logicalShape = [1, 1, 1, 1, 2], texShape = (1, 2),
           textureChannelPackingFormat = R\<rparr>\<rparr>]
     = Some \<lparr>name = ''b'', shapeInfo = \<lparr>logicalShape = [1, 1, 1, 1, 2], texShape = (1, 2),
           textureChannelPackingFormat = R\<rparr>\<rparr>
   \<and> makeShader True \<lparr>FLOAT_MIN = - 20000, FLOAT_MAX = 20000, BYTE_NAN_VALUE = 0\<rparr>
      [\<lparr>name = ''a'', shapeInfo = \<lparr>logicalShape = [2], texShape = (1, 2),
           textureChannelPackingFormat = R\<rparr>\<rparr>,
       \<lparr>name = ''b'', shapeInfo = \<lparr>logicalShape = [1, 1, 1, 1, 2], texShape = (1, 2),
           textureChannelPackingFormat = R\<rparr>\<rparr>]
      \<lparr>logicalShape = [2], texShape = (1, 2), textureChannelPackingFormat = R\<rparr>
      ''void main() {}'' False
     = Inl (Error ''5-D input sampling is not yet supported'')
   \<and> find (\<lambda>x. 4 < length (logicalShape (shapeInfo x)))
      [\<lparr>name = ''a'', shapeInfo = \<lparr>logicalShape = [2], texShape = (1, 2),
           textureChannelPackingFormat = R\<rparr>\<rparr>] = None
   \<and> 4 < length (logicalShape \<lparr>logicalShape = [1, 1, 1, 1, 1, 2], texShape = (1, 2),
           textureChannelPackingFormat = R\<rparr>)
   \<and> makeShader True \<lparr>FLOAT_MIN = - 20000, FLOAT_MAX = 20000, BYTE_NAN_VALUE = 0\<rparr>
      [\<lparr>name = ''a'', shapeInfo = \<lparr>logicalShape = [2], texShape = (1, 2),
           textureChannelPackingFormat = R\<rparr>\<rparr>]
      \<lparr>logicalShape = [1, 1, 1, 1, 1, 2], texShape = (1, 2), textureChannelPackingFormat = R\<rparr>
      ''void main() {}'' False
     = Inl (Error ''6-D output sampling is not yet supported'')
   \<and> isl (makeShader True \<lparr>FLOAT_MIN = - 20000, FLOAT_MAX = 20000, BYTE_NAN_VALUE = 0\<rparr>
      [\<lparr>name = ''a'', shapeInfo = \<lparr>logicalShape = [2], texShape = (1, 2),
           textureChannelPackingFormat = R\<rparr>\<rparr>]
      \<lparr>logicalShape = [1, 1, 1, 1, 1, 2], texShape = (1, 2), textureChannelPackingFormat = R\<rparr>
      ''void main() {}'' False)"
  using unsupported_rank_fails [of
      "[\<lparr>name = ''a'', shapeInfo = \<lparr>logicalShape = [2], texShape = (1, 2),
           textureChannelPackingFormat = R\<rparr>\<rparr>,
       \<lparr>name = ''b'', shapeInfo = \<lparr>logicalShape = [1, 1, 1, 1, 2], texShape = (1, 2),
           textureChannelPackingFormat = R\<rparr>\<rparr>]"
      "\<lparr>name = ''b'', shapeInfo = \<lparr>logicalShape = [1, 1, 1, 1, 2], texShape = (1, 2),
           textureChannelPackingFormat = R\<rparr>\<rparr>"
      True "\<lparr>FLOAT_MIN = - 20000, FLOAT_MAX = 20000, BYTE_NAN_VALUE = 0\<rparr>"
      "\<lparr>logicalShape = [2], texShape = (1, 2), textureChannelPackingFormat = R\<rparr>"
      "''void main() {}''" False]
    unsupported_rank_fails [of
      "[\<lparr>name = ''a'', shapeInfo = \<lparr>logicalShape = [2], texShape = (1, 2),
           textureChannelPackingFormat = R\<rparr>\<rparr>]"
      undefined
      True "\<lparr>FLOAT_MIN = - 20000, FLOAT_MAX = 20000, BYTE_NAN_VALUE = 0\<rparr>"
      "\<lparr>logicalShape = [1, 1, 1, 1, 1, 2], texShape = (1, 2), textureChannelPackingFormat = R\<rparr>"
      "''void main() {}''" False]
  by (simp add: dec.simps [of "Suc (Suc (Suc (Suc (Suc 0))))"]
      dec.simps [of "Suc (Suc (Suc (Suc (Suc (Suc 0)))))"] digit_def)

text \<open>
  C4. No packing format is rejected: whatever the packing formats of the descriptors,
  a compilation whose descriptors all have rank 0 to 4 returns shader text.
\<close>

theorem packing_format_not_rejected:
  assumes "list_all (\<lambda>x. length (logicalShape (shapeInfo x)) \<le> 4) inputsInfo"
      and "length (logicalShape outputShapeInfo) \<le> 4"
  shows "\<exists>source. makeShader float_enabled tu inputsInfo outputShapeInfo userCode broadcast
           = Inr source"
proof -
  let ?f = "\<lambda>x. getInputSamplingSnippet x outputShapeInfo broadcast"
  have "find (\<lambda>x. isl (?f x)) inputsInfo = None"
    using assms(1) by (auto simp: find_None_iff input_isl_iff list_all_iff)
  then have "map_throwing ?f inputsInfo = Inr (map (\<lambda>x. projr (?f x)) inputsInfo)"
    by (rule map_throwing_total)
  moreover obtain s where "getOutputSamplingSnippet outputShapeInfo = Inr s"
    using output_rank_ok [OF assms(2)] by (cases "getOutputSamplingSnippet outputShapeInfo") auto
  ultimately show ?thesis by (simp add: makeShader_def Let_def)
qed


theorem packing_format_not_rejected_witness:
  "list_all (\<lambda>x. length (logicalShape (shapeInfo x)) \<le> 4)
      [\<lparr>name = ''x'', shapeInfo = \<lparr>logicalShape = [2, 3], texShape = (2, 3),
           textureChannelPackingFormat = RGBA_1_BY_4\<rparr>\<rparr>]
   \<and> length (logicalShape \<lparr>logicalShape = [2, 3], texShape = (2, 3),
           textureChannelPackingFormat = RGBA_1_BY_4\<rparr>) \<le> 4
   \<and> (\<exists>source. makeShader False \<lparr>FLOAT_MIN = - 20000, FLOAT_MAX = 20000, BYTE_NAN_VALUE = 0\<rparr>
      [\<lparr>name = ''x'', shapeInfo = \<lparr>logicalShape = [2, 3], texShape = (2, 3),
           textureChannelPackingFormat = RGBA_1_BY_4\<rparr>\<rparr>]
      \<lparr>logicalShape = [2, 3], texShape = (2, 3), textureChannelPackingFormat = RGBA_1_BY_4\<rparr>
      ''void main() {}'' False = Inr source)"
  using packing_format_not_rejected [of
      "[\<lparr>name = ''x'', shapeInfo = \<lparr>logicalShape = [2, 3], texShape = (2, 3),
           textureChannelPackingFormat = RGBA_1_BY_4\<rparr>\<rparr>]"
      "\<lparr>logicalShape = [2, 3], texShape = (2, 3), textureChannelPackingFormat = RGBA_1_BY_4\<rparr>"
      False "\<lparr>FLOAT_MIN = - 20000, FLOAT_MAX = 20000, BYTE_NAN_VALUE = 0\<rparr>"
      "''void main() {}''" False]
  by simp

theorem packing_format_rejected_counterexample:
  "\<not> isl (makeShader False \<lparr>FLOAT_MIN = - 20000, FLOAT_MAX = 20000, BYTE_NAN_VALUE = 0\<rparr>
      [\<lparr>name = ''x'', shapeInfo = \<lparr>logicalShape = [2, 3], texShape = (2, 3),
           textureChannelPackingFormat = RGBA_1_BY_4\<rparr>\<rparr>]
      \<lparr>logicalShape = [2, 3], texShape = (2, 3), textureChannelPackingFormat = RGBA_1_BY_4\<rparr>
      ''void main() {}'' False)"
  by (simp add: makeShader_def getInputSamplingSnippet_def getOutputSamplingSnippet_def Let_def)

lemma input_snippet_cong:
  assumes "name x = name y"
      and "logicalShape (shapeInfo x) = logicalShape (shapeInfo y)"
      and "texShape (shapeInfo x) = texShape (shapeInfo y)"
      and "logicalShape outA = logicalShape outB" and "texShape outA = texShape outB"
  shows "getInputSamplingSnippet x outA broadcast = getInputSamplingSnippet y outB broadcast"
  unfolding getInputSamplingSnippet_def assms ..

lemma map_throwing_cong:
  assumes "list_all2 (\<lambda>x y. f x = g y) xs ys"
  shows "map_throwing f xs = map_throwing g ys"
  using assms by (induction xs ys rule: list_all2_induct) (simp_all cong: sum.case_cong)

text \<open>
  C10. The result of \<open>makeShader\<close> does not depend on the packing formats: two calls
  whose inputs agree pairwise on name, logical shape and texture shape, and whose outputs
  agree on logical shape and texture shape, return the same result, be it text or error.
\<close>

theorem packing_format_irrelevant:
  assumes "list_all2 (\<lambda>x y. name x = name y
              \<and> logicalShape (shapeInfo x) = logicalShape (shapeInfo y)
              \<and> texShape (shapeInfo x) = texShape (shapeInfo y)) inputsA inputsB"
      and "logicalShape outA = logicalShape outB" and "texShape outA = texShape outB"
  shows "makeShader float_enabled tu inputsA outA userCode broadcast
       = makeShader float_enabled tu inputsB outB userCode broadcast"
proof -
  have "list_all2 (\<lambda>x y. getInputSamplingSnippet x outA broadcast
                        = getInputSamplingSnippet y outB broadcast) inputsA inputsB"
    using assms(1)
    by (rule list_all2_mono) (simp add: input_snippet_cong [OF _ _ _ assms(2,3)])
  then have snip: "map_throwing (\<lambda>x. getInputSamplingSnippet x outA broadcast) inputsA
      = map_throwing (\<lambda>x. getInputSamplingSnippet x outB broadcast) inputsB"
    by (rule map_throwing_cong)
  have "list_all2 (\<lambda>x y. name x = name y) inputsA inputsB"
    using assms(1) by (rule list_all2_mono) simp
  then have names: "map name inputsA = map name inputsB"
    by (induction inputsA inputsB rule: list_all2_induct) simp_all
  have decl: "map (\<lambda>x. ''uniform sampler2D '' @ name x @ '';'') inputsA
      = map (\<lambda>x. ''uniform sampler2D '' @ name x @ '';'') inputsB"
    using arg_cong [OF names, of "map (\<lambda>n. ''uniform sampler2D '' @ n @ '';'')"]
    by (simp add: comp_def)
  have outs: "getOutputSamplingSnippet outA = getOutputSamplingSnippet outB"
    unfolding getOutputSamplingSnippet_def assms(2,3) ..
  have setout: "getSetOutputSnippet float_enabled tu outA = getSetOutputSnippet float_enabled tu outB"
    by (simp add: getSetOutputSnippet_def)
  show ?thesis unfolding makeShader_def snip decl outs setout ..
qed

theorem packing_format_irrelevant_witness:
  "list_all2 (\<lambda>x y. name x = name y
              \<and> logicalShape (shapeInfo x) = logicalShape (shapeInfo y)
              \<and> texShape (shapeInfo x) = texShape (shapeInfo y))
      [\<lparr>name = ''x'', shapeInfo = \<lparr>logicalShape = [2, 3], texShape = (2, 3),
           textureChannelPackingFormat = R\<rparr>\<rparr>]
      [\<lparr>name = ''x'', shapeInfo = \<lparr>logicalShape = [2, 3], texShape = (2, 3),
           textureChannelPackingFormat = RGBA_1_BY_4\<rparr>\<rparr>]
   \<and> makeShader False \<lparr>FLOAT_MIN = - 20000, FLOAT_MAX = 20000, BYTE_NAN_VALUE = 0\<rparr>
      [\<lparr>name = ''x'', shapeInfo = \<lparr>logicalShape = [2, 3], texShape = (2, 3),
           textureChannelPackingFormat = R\<rparr>\<rparr>]
      \<lparr>logicalShape = [3, 2], texShape = (2, 3), textureChannelPackingFormat = R\<rparr>
      ''void main() {}'' True
     = makeShader False \<lparr>FLOAT_MIN = - 20000, FLOAT_MAX = 20000, BYTE_NAN_VALUE = 0\<rparr>
      [\<lparr>name = ''x'', shapeInfo = \<lparr>logicalShape = [2, 3], texShape = (2, 3),
           textureChannelPackingFormat = RGBA_1_BY_4\<rparr>\<rparr>]
      \<lparr>logicalShape = [3, 2], texShape = (2, 3), textureChannelPackingFormat = RGBA_1_BY_4\<rparr>
      ''void main() {}'' True"
  using packing_format_irrelevant [of
      "[\<lparr>name = ''x'', shapeInfo = \<lparr>logicalShape = [2, 3], texShape = (2, 3),
           textureChannelPackingFormat = R\<rparr>\<rparr>]"
      "[\<lparr>name = ''x'', shapeInfo = \<lparr>logicalShape = [2, 3], texShape = (2, 3),
           textureChannelPackingFormat = RGBA_1_BY_4\<rparr>\<rparr>]"
      "\<lparr>logicalShape = [3, 2], texShape = (2, 3), textureChannelPackingFormat = R\<rparr>"
      "\<lparr>logicalShape = [3, 2], texShape = (2, 3), textureChannelPackingFormat = RGBA_1_BY_4\<rparr>"
      False "\<lparr>FLOAT_MIN = - 20000, FLOAT_MAX = 20000, BYTE_NAN_VALUE = 0\<rparr>"
      "''void main() {}''" True]
  by simp


subsection \<open>The assembler: layout of the text\<close>

lemma join_nl_Cons:
  "ys \<noteq> [] \<Longrightarrow> join_nl (x # ys) = x @ ''\<newline>'' @ join_nl ys"
  by (cases ys) simp_all

lemma join_nl_append:
  "xs \<noteq> [] \<Longrightarrow> ys \<noteq> [] \<Longrightarrow> join_nl (xs @ ys) = join_nl xs @ ''\<newline>'' @ join_nl ys"
proof (induction xs rule: join_nl.induct)
  case 1
  then show ?case by simp
next
  case (2 x)
  then show ?case by (simp add: join_nl_Cons)
next
  case (3 x y zs)
  then show ?case by simp
qed

text \<open>
  C8. A successful call returns seven blocks, each separated from the next by one line
  break: the shader prefix, the sample snippet of the selected codec, its setOutput
  snippet, the uniform declarations of the inputs in list order joined by line breaks, the
  addressing snippets of the inputs in list order joined by line breaks, the
  output-coordinate decoder, and the caller's body as given. With at least one input this
  is the line-break join of all these items in that order.
\<close>

theorem makeShader_layout:
  assumes "makeShader float_enabled tu inputsInfo outputShapeInfo userCode broadcast = Inr source"
  shows "\<exists>snippets outputSamplingSnippet.
           map (\<lambda>x. getInputSamplingSnippet x outputShapeInfo broadcast) inputsInfo
             = map Inr snippets
         \<and> getOutputSamplingSnippet outputShapeInfo = Inr outputSamplingSnippet
         \<and> source =
             SHADER_PREFIX @ ''\<newline>'' @
             (if float_enabled then FLOAT_TEXTURE_SAMPLE_SNIPPET
              else UNSIGNED_BYTE_TEXTURE_SAMPLE_SNIPPET tu) @ ''\<newline>'' @
             (if float_enabled then FLOAT_TEXTURE_SETOUTPUT_SNIPPET
              else UNSIGNED_BYTE_TEXTURE_SETOUTPUT_SNIPPET tu) @ ''\<newline>'' @
             join_nl (map (\<lambda>x. ''uniform sampler2D '' @ name x @ '';'') inputsInfo) @ ''\<newline>'' @
             join_nl snippets @ ''\<newline>'' @
             outputSamplingSnippet @ ''\<newline>'' @
             userCode
         \<and> (inputsInfo \<noteq> [] \<longrightarrow>
              source = join_nl
                ([SHADER_PREFIX,
                  if float_enabled then FLOAT_TEXTURE_SAMPLE_SNIPPET
                  else UNSIGNED_BYTE_TEXTURE_SAMPLE_SNIPPET tu,
                  if float_enabled then FLOAT_TEXTURE_SETOUTPUT_SNIPPET
                  else UNSIGNED_BYTE_TEXTURE_SETOUTPUT_SNIPPET tu]
                 @ map (\<lambda>x. ''uniform sampler2D '' @ name x @ '';'') inputsInfo
                 @ snippets
                 @ [outputSamplingSnippet, userCode]))"
proof -
  let ?f = "\<lambda>x. getInputSamplingSnippet x outputShapeInfo broadcast"
  let ?decls = "map (\<lambda>x. ''uniform sampler2D '' @ name x @ '';'') inputsInfo"
  let ?S = "if float_enabled then FLOAT_TEXTURE_SAMPLE_SNIPPET
            else UNSIGNED_BYTE_TEXTURE_SAMPLE_SNIPPET tu"
  let ?O = "if float_enabled then FLOAT_TEXTURE_SETOUTPUT_SNIPPET
            else UNSIGNED_BYTE_TEXTURE_SETOUTPUT_SNIPPET tu"
  obtain snippets where sn: "map_throwing ?f inputsInfo = Inr snippets"
    using assms by (cases "map_throwing ?f inputsInfo") (simp_all add: makeShader_def)
  obtain out where out: "getOutputSamplingSnippet outputShapeInfo = Inr out"
    using assms sn by (cases "getOutputSamplingSnippet outputShapeInfo")
      (simp_all add: makeShader_def)
  have src: "source = join_nl [SHADER_PREFIX, ?S, ?O, join_nl ?decls, join_nl snippets, out, userCode]"
    using assms sn out
    by (simp add: makeShader_def getSampleSnippet_def getSetOutputSnippet_def Let_def)
  have m: "map ?f inputsInfo = map Inr snippets"
    using sn by (simp add: map_throwing_Inr_iff)
  have blocks: "source = SHADER_PREFIX @ ''\<newline>'' @ ?S @ ''\<newline>'' @ ?O @ ''\<newline>'' @
      join_nl ?decls @ ''\<newline>'' @ join_nl snippets @ ''\<newline>'' @ out @ ''\<newline>'' @ userCode"
    unfolding src by simp
  have flat: "source = join_nl ([SHADER_PREFIX, ?S, ?O] @ ?decls @ snippets @ [out, userCode])"
    if ne: "inputsInfo \<noteq> []"
  proof -
    have "length snippets = length inputsInfo"
      using arg_cong [OF m, of length] by simp
    then have s: "snippets \<noteq> []" using ne by auto
    have d: "?decls \<noteq> []" using ne by simp
    have "join_nl ([SHADER_PREFIX, ?S, ?O] @ ?decls @ snippets @ [out, userCode])
        = join_nl [SHADER_PREFIX, ?S, ?O] @ ''\<newline>'' @ join_nl (?decls @ snippets @ [out, userCode])"
      using d by (intro join_nl_append) simp_all
    also have "join_nl (?decls @ snippets @ [out, userCode])
        = join_nl ?decls @ ''\<newline>'' @ join_nl (snippets @ [out, userCode])"
      using d by (intro join_nl_append) simp_all
    also have "join_nl (snippets @ [out, userCode])
        = join_nl snippets @ ''\<newline>'' @ join_nl [out, userCode]"
      using s by (intro join_nl_append) simp_all
    finally show ?thesis unfolding blocks by simp
  qed
  from m out blocks flat show ?thesis by blast
qed

theorem makeShader_layout_witness:
  "makeShader True \<lparr>FLOAT_MIN = - 20000, FLOAT_MAX = 20000, BYTE_NAN_VALUE = 0\<rparr>
      [\<lparr>name = ''x'', shapeInfo = \<lparr>logicalShape = [], texShape = (1, 1),
           textureChannelPackingFormat = R\<rparr>\<rparr>]
      \<lparr>logicalShape = [3], texShape = (1, 3), textureChannelPackingFormat = R\<rparr>
      ''void main() {}'' False
     = Inr (join_nl [SHADER_PREFIX, FLOAT_TEXTURE_SAMPLE_SNIPPET, FLOAT_TEXTURE_SETOUTPUT_SNIPPET,
              ''uniform sampler2D x;'', getSamplerScalar ''x'' @ getSamplerFlat ''x'' (1, 1),
              getOutput1DCoords 3 (1, 3), ''void main() {}''])
   \<and> [\<lparr>name = ''x'', shapeInfo = \<lparr>logicalShape = [], texShape = (1, 1),
           textureChannelPackingFormat = R\<rparr>\<rparr>] \<noteq> []
   \<and> (\<exists>snippets outputSamplingSnippet.
         snippets = [getSamplerScalar ''x'' @ getSamplerFlat ''x'' (1, 1)]
       \<and> outputSamplingSnippet = getOutput1DCoords 3 (1, 3)
       \<and> join_nl [SHADER_PREFIX, FLOAT_TEXTURE_SAMPLE_SNIPPET, FLOAT_TEXTURE_SETOUTPUT_SNIPPET,
              ''uniform sampler2D x;'', getSamplerScalar ''x'' @ getSamplerFlat ''x'' (1, 1),
              getOutput1DCoords 3 (1, 3), ''void main() {}''] =
             SHADER_PREFIX @ ''\<newline>'' @ FLOAT_TEXTURE_SAMPLE_SNIPPET @ ''\<newline>'' @
             FLOAT_TEXTURE_SETOUTPUT_SNIPPET @ ''\<newline>'' @
             join_nl [''uniform sampler2D x;''] @ ''\<newline>'' @
             join_nl snippets @ ''\<newline>'' @
             outputSamplingSnippet @ ''\<newline>'' @
             ''void main() {}'')"
proof -
  let ?x = "\<lparr>name = ''x'', shapeInfo = \<lparr>logicalShape = [], texShape = (1, 1),
           textureChannelPackingFormat = R\<rparr>\<rparr>"
  let ?out = "\<lparr>logicalShape = [3], texShape = (1, 3), textureChannelPackingFormat = R\<rparr>"
  let ?tu = "\<lparr>FLOAT_MIN = - 20000, FLOAT_MAX = 20000, BYTE_NAN_VALUE = 0\<rparr>"
  let ?src = "join_nl [SHADER_PREFIX, FLOAT_TEXTURE_SAMPLE_SNIPPET, FLOAT_TEXTURE_SETOUTPUT_SNIPPET,
              ''uniform sampler2D x;'', getSamplerScalar ''x'' @ getSamplerFlat ''x'' (1, 1),
              getOutput1DCoords 3 (1, 3), ''void main() {}'']"
  have i: "getInputSamplingSnippet ?x ?out False
      = Inr (getSamplerScalar ''x'' @ getSamplerFlat ''x'' (1, 1))"
    by (simp add: getInputSamplingSnippet_def arraysEqual_def)
  have o: "getOutputSamplingSnippet ?out = Inr (getOutput1DCoords 3 (1, 3))"
    by (simp add: getOutputSamplingSnippet_def)
  have ok: "makeShader True ?tu [?x] ?out ''void main() {}'' False = Inr ?src"
    unfolding makeShader_def map_throwing.simps i o
    by (simp add: getSampleSnippet_def getSetOutputSnippet_def)
  from makeShader_layout [OF ok] obtain snippets outputSamplingSnippet where
    m: "map (\<lambda>x. getInputSamplingSnippet x ?out False) [?x] = map Inr snippets" and
    p: "getOutputSamplingSnippet ?out = Inr outputSamplingSnippet" and
    b: "?src = SHADER_PREFIX @ ''\<newline>'' @
             (if True then FLOAT_TEXTURE_SAMPLE_SNIPPET
              else UNSIGNED_BYTE_TEXTURE_SAMPLE_SNIPPET ?tu) @ ''\<newline>'' @
             (if True then FLOAT_TEXTURE_SETOUTPUT_SNIPPET
              else UNSIGNED_BYTE_TEXTURE_SETOUTPUT_SNIPPET ?tu) @ ''\<newline>'' @
             join_nl (map (\<lambda>x. ''uniform sampler2D '' @ name x @ '';'') [?x]) @ ''\<newline>'' @
             join_nl snippets @ ''\<newline>'' @
             outputSamplingSnippet @ ''\<newline>'' @
             ''void main() {}''"
    by blast
  have s: "snippets = [getSamplerScalar ''x'' @ getSamplerFlat ''x'' (1, 1)]"
    using m unfolding list.map i by (cases snippets) auto
  have q: "outputSamplingSnippet = getOutput1DCoords 3 (1, 3)"
    using p unfolding o by simp
  have "?src = SHADER_PREFIX @ ''\<newline>'' @ FLOAT_TEXTURE_SAMPLE_SNIPPET @ ''\<newline>'' @
             FLOAT_TEXTURE_SETOUTPUT_SNIPPET @ ''\<newline>'' @
             join_nl [''uniform sampler2D x;''] @ ''\<newline>'' @
             join_nl snippets @ ''\<newline>'' @
             outputSamplingSnippet @ ''\<newline>'' @
             ''void main() {}''"
    using b by simp
  with ok s q show ?thesis by blast
qed

subsection \<open>Names of the generated functions\<close>

text \<open>The upper-casing of the generators is the one read from the alphabet: checked on
  each of the 256 characters.\<close>

lemma toUpperCase_char_upper_case: "toUpperCase_char c = upper_case c"
proof (cases c)
  case (Char b0 b1 b2 b3 b4 b5 b6 b7)
  then show ?thesis
    by (cases b0; cases b1; cases b2; cases b3; cases b4; cases b5; cases b6; cases b7)
       (simp_all add: toUpperCase_char_def upper_case_def Let_def char_of_def bit_0)
qed

lemma capitalize_eq [simp]:
  "toUpperCase (charAt texName 0) @ slice texName (Suc 0) @ rest = capitalize texName @ rest"
  by (cases texName)
     (simp_all add: toUpperCase_def charAt_def slice_def toUpperCase_char_upper_case)

lemma starts_with_Nil [simp]: "starts_with [] s"
  by (simp add: starts_with_def)

lemma starts_with_Cons [simp]: "starts_with (c # p) (d # s) \<longleftrightarrow> c = d \<and> starts_with p s"
  by (auto simp: starts_with_def)

lemma starts_with_append [simp]: "starts_with (x @ p) (x @ s) \<longleftrightarrow> starts_with p s"
  by (simp add: starts_with_def)

lemma sampler_scalar_name:
  "starts_with (''float get'' @ capitalize texName @ ''()'') (trimStart (getSamplerScalar texName))"
  by (simp add: getSamplerScalar_def Let_def trimStart_def)


lemma sampler_flat_name:
  "starts_with (''float get'' @ capitalize texName @ ''Flat(int index)'')
     (trimStart (getSamplerFlat texName ts))"
  by (simp add: getSamplerFlat_def Let_def trimStart_def)

lemma sampler_1D_name:
  "starts_with (''float get'' @ capitalize texName @ ''(int index)'')
     (trimStart (getSampler1D texName ts))"
  by (simp add: getSampler1D_def Let_def trimStart_def)

lemma sampler_2D_name:
  "starts_with (''float get'' @ capitalize texName @ ''(int row, int col)'')
     (trimStart (getSampler2D texName shape ts))"
  by (cases shape) (simp add: getSampler2D_def Let_def trimStart_def)

lemma sampler_3D_name:
  "starts_with (''float get'' @ capitalize texName @ ''(int row, int col, int depth)'')
     (trimStart (getSampler3D texName shape ts))"
  by (cases shape) (simp add: getSampler3D_def Let_def trimStart_def)

lemma sampler_4D_name:
  "starts_with (''float get'' @ capitalize texName @ ''(int row, int col, int depth, int depth2)'')
     (trimStart (getSampler4D texName shape ts))"
  by (cases shape) (simp add: getSampler4D_def Let_def trimStart_def)

lemma sampler_at_out_name:
  "starts_with (''float get'' @ capitalize texName @ ''AtOutCoords()'')
     (trimStart (getSamplerAtOutputCoords texName inTexShape outTexShape broadcast))"
  by (simp add: getSamplerAtOutputCoords_def Let_def trimStart_def)

lemma decoder_names:
  "starts_with ''int getOutputCoords()'' (trimStart (getOutput1DCoords s0 ts))"
  "starts_with ''ivec2 getOutputCoords()'' (trimStart (getOutput2DCoords shape2 ts))"
  "starts_with ''ivec3 getOutputCoords()'' (trimStart (getOutput3DCoords shape3 ts))"
  "starts_with ''ivec4 getOutputCoords()'' (trimStart (getOutput4DCoords shape4 ts))"
     apply (simp add: getOutput1DCoords_def trimStart_def)
    apply (cases shape2) apply (simp add: getOutput2DCoords_def trimStart_def)
   apply (cases shape3) apply (simp add: getOutput3DCoords_def trimStart_def Let_def)
  apply (cases shape4) apply (simp add: getOutput4DCoords_def trimStart_def Let_def)
  done

text \<open>
  C9. Every accessor that is generated for an input whose name \<open>texName\<close> consists of
  ASCII characters is declared under the name \<open>get\<close> followed by \<open>texName\<close> with
  its first character in upper case and the rest unchanged: the random-access sampler of
  each rank under that name, the flat sampler with the suffix \<open>Flat\<close>, the broadcast
  accessor with the suffix \<open>AtOutCoords\<close>. Every output-coordinate decoder is
  declared as \<open>getOutputCoords\<close>.
\<close>

theorem accessor_names:
  assumes "list_all is_ascii texName"
  shows "starts_with (''float get'' @ capitalize texName @ ''()'')
     (trimStart (getSamplerScalar texName))
   \<and> starts_with (''float get'' @ capitalize texName @ ''(int index)'')
     (trimStart (getSampler1D texName ts))
   \<and> starts_with (''float get'' @ capitalize texName @ ''(int row, int col)'')
     (trimStart (getSampler2D texName shape2 ts))
   \<and> starts_with (''float get'' @ capitalize texName @ ''(int row, int col, int depth)'')
     (trimStart (getSampler3D texName shape3 ts))
   \<and> starts_with
         (''float get'' @ capitalize texName @ ''(int row, int col, int depth, int depth2)'')
     (trimStart (getSampler4D texName shape4 ts))
   \<and> starts_with (''float get'' @ capitalize texName @ ''Flat(int index)'')
     (trimStart (getSamplerFlat texName ts))
   \<and> starts_with (''float get'' @ capitalize texName @ ''AtOutCoords()'')
     (trimStart (getSamplerAtOutputCoords texName ts outTexShape broadcast))
   \<and> starts_with ''int getOutputCoords()'' (trimStart (getOutput1DCoords s0 outTexShape))
   \<and> starts_with ''ivec2 getOutputCoords()'' (trimStart (getOutput2DCoords shape2 outTexShape))
   \<and> starts_with ''ivec3 getOutputCoords()'' (trimStart (getOutput3DCoords shape3 outTexShape))
   \<and> starts_with ''ivec4 getOutputCoords()'' (trimStart (getOutput4DCoords shape4 outTexShape))"
  by (intro conjI sampler_scalar_name sampler_1D_name sampler_2D_name sampler_3D_name
      sampler_4D_name sampler_flat_name sampler_at_out_name decoder_names)

theorem accessor_names_witness:
  "list_all is_ascii ''matrixA''
   \<and> capitalize ''matrixA'' = ''MatrixA''
   \<and> starts_with ''float getMatrixA()'' (trimStart (getSamplerScalar ''matrixA''))
   \<and> starts_with ''float getMatrixA(int index)'' (trimStart (getSampler1D ''matrixA'' (2, 3)))
   \<and> starts_with ''float getMatrixA(int row, int col)''
        (trimStart (getSampler2D ''matrixA'' (3, 2) (2, 3)))
   \<and> starts_with ''float getMatrixA(int row, int col, int depth)''
        (trimStart (getSampler3D ''matrixA'' (1, 3, 2) (2, 3)))
   \<and> starts_with ''float getMatrixA(int row, int col, int depth, int depth2)''
        (trimStart (getSampler4D ''matrixA'' (1, 1, 3, 2) (2, 3)))
   \<and> starts_with ''float getMatrixAFlat(int index)'' (trimStart (getSamplerFlat ''matrixA'' (2, 3)))
   \<and> starts_with ''float getMatrixAAtOutCoords()''
        (trimStart (getSamplerAtOutputCoords ''matrixA'' (2, 3) (3, 2) True))
   \<and> starts_with ''int getOutputCoords()'' (trimStart (getOutput1DCoords 6 (3, 2)))
   \<and> starts_with ''ivec2 getOutputCoords()'' (trimStart (getOutput2DCoords (3, 2) (3, 2)))
   \<and> starts_with ''ivec3 getOutputCoords()'' (trimStart (getOutput3DCoords (1, 3, 2) (3, 2)))
   \<and> starts_with ''ivec4 getOutputCoords()''
        (trimStart (getOutput4DCoords (1, 1, 3, 2) (3, 2)))"
proof -
  have a: "list_all is_ascii ''matrixA''" by (simp add: is_ascii_def)
  have c: "capitalize ''matrixA'' = ''MatrixA''" by (simp add: upper_case_def)
  show ?thesis
    using a c accessor_names [OF a, of "(2, 3)" "(3, 2)" "(1, 3, 2)" "(1, 1, 3, 2)" "(3, 2)" True 6]
    by simp
qed

end
